theory Spec2Isabelle
  imports Main "HOL-Library.Monad_Syntax"
begin

section \<open>Constants of \<^verbatim>\<open>pkg/network/bridge/plugin.go\<close>\<close>

definition fakeDevicePath :: string where
  "fakeDevicePath = ''/var/run/device-plugin-network-bridge-fakedev''"

definition nicsPoolSize :: nat where
  "nicsPoolSize = 100"

definition interfaceNameLen :: nat where
  "interfaceNameLen = 15"

definition interfaceNamePrefix :: string where
  "interfaceNamePrefix = ''nic_''"

definition letterBytes :: string where
  "letterBytes = ''abcdefghijklmnopqrstuvwxyz0123456789''"

text \<open>Times and durations are counted in nanoseconds, as \<^verbatim>\<open>time.Duration\<close> does.\<close>

definition assignmentTimeout :: int where
  "assignmentTimeout = 30 * (60 * 1000000000)"

definition protocolEthernet :: string where
  "protocolEthernet = ''Ethernet''"

definition envVarNamePrefix :: string where
  "envVarNamePrefix = ''NETWORK_INTERFACE_RESOURCES_''"

definition envVarNameSuffixLen :: nat where
  "envVarNameSuffixLen = 8"

text \<open>\<^verbatim>\<open>pluginapi.Healthy\<close>, the health string of the device plugin API.\<close>

definition Healthy :: string where
  "Healthy = ''Healthy''"

section \<open>Device Advertiser\<close>

record Device =
  ID :: string
  Health :: string

record ListAndWatchResponse =
  Devices :: "Device list"

subsection \<open>Formatting\<close>

text \<open>
  Decimal rendering of a non-negative integer, and the verb \<^verbatim>\<open>%02d\<close> of
  \<^verbatim>\<open>fmt.Sprintf\<close>: the decimal digits, padded on the left with zeros to a width
  of two. The loop counter it is applied to is never negative.
\<close>

definition digitChar :: "nat \<Rightarrow> char" where
  "digitChar d = ''0123456789'' ! d"

fun decimal :: "nat \<Rightarrow> string" where
  "decimal n = (if n < 10 then [digitChar n] else decimal (n div 10) @ [digitChar (n mod 10)])"

declare decimal.simps [simp del]

definition sprintf_02d :: "nat \<Rightarrow> string" where
  "sprintf_02d n = (let ds = decimal n in replicate (2 - length ds) (CHR ''0'') @ ds)"

subsection \<open>generateBridgeDevices\<close>

text \<open>
  The loop \<^verbatim>\<open>for i := 0; i < nicsPoolSize; i++\<close>, appending one device per round
  to \<^verbatim>\<open>bridgeDevs\<close>.
\<close>

function generateBridgeDevices_loop :: "string \<Rightarrow> nat \<Rightarrow> Device list \<Rightarrow> Device list" where
  "generateBridgeDevices_loop bridge i bridgeDevs =
     (if i < nicsPoolSize
      then generateBridgeDevices_loop bridge (i + 1)
             (bridgeDevs @ [\<lparr>ID = bridge @ ''-'' @ sprintf_02d i, Health = Healthy\<rparr>])
      else bridgeDevs)"
  by pat_completeness auto
termination
  by (relation "measure (\<lambda>(bridge, i, bridgeDevs). nicsPoolSize - i)") auto

declare generateBridgeDevices_loop.simps [simp del]

definition generateBridgeDevices :: "string \<Rightarrow> Device list" where
  "generateBridgeDevices bridge = generateBridgeDevices_loop bridge 0 []"

subsection \<open>ListAndWatch\<close>

text \<open>
  \<^verbatim>\<open>ListAndWatch\<close> never returns. What it does is the sequence of messages it has
  handed to \<^verbatim>\<open>s.Send\<close>; the result of \<^verbatim>\<open>Send\<close> is discarded by the source.
  The successive results of \<^verbatim>\<open>bridgeExists(nbdp.bridge)\<close> are the input: the one
  taken before the loop, and one per round of the loop. The model runs the loop over a
  finite list of rounds and returns the messages sent so far.
\<close>

definition emitResponse ::
  "Device list \<Rightarrow> Device list \<Rightarrow> bool \<Rightarrow> ListAndWatchResponse list \<Rightarrow> ListAndWatchResponse list" where
  "emitResponse bridgeDevs noBridgeDevs bridgeExists sent =
     (if bridgeExists then sent @ [\<lparr>Devices = bridgeDevs\<rparr>]
      else sent @ [\<lparr>Devices = noBridgeDevs\<rparr>])"

fun ListAndWatch_loop ::
  "Device list \<Rightarrow> Device list \<Rightarrow> bool \<Rightarrow> bool list \<Rightarrow> ListAndWatchResponse list
     \<Rightarrow> ListAndWatchResponse list" where
  "ListAndWatch_loop bridgeDevs noBridgeDevs didBridgeExist [] sent = sent"
| "ListAndWatch_loop bridgeDevs noBridgeDevs didBridgeExist (doesBridgeExist # rounds) sent =
     (if didBridgeExist \<noteq> doesBridgeExist
      then ListAndWatch_loop bridgeDevs noBridgeDevs doesBridgeExist rounds
             (emitResponse bridgeDevs noBridgeDevs doesBridgeExist sent)
      else ListAndWatch_loop bridgeDevs noBridgeDevs didBridgeExist rounds sent)"

definition ListAndWatch :: "string \<Rightarrow> bool \<Rightarrow> bool list \<Rightarrow> ListAndWatchResponse list" where
  "ListAndWatch bridge atStart rounds =
     (let bridgeDevs = generateBridgeDevices bridge;
          noBridgeDevs = [];
          didBridgeExist = atStart;
          sent = emitResponse bridgeDevs noBridgeDevs didBridgeExist []
      in ListAndWatch_loop bridgeDevs noBridgeDevs didBridgeExist rounds sent)"

text \<open>
  The payload the specification gives for each state: in the present state the pool of
  100 devices \<^verbatim>\<open><bridge>-00\<close> to \<^verbatim>\<open><bridge>-99\<close>, all healthy; in the absent state
  no device.
\<close>

definition poolDevice :: "string \<Rightarrow> nat \<Rightarrow> Device" where
  "poolDevice bridge i =
     \<lparr>ID = bridge @ ''-'' @ [''0123456789'' ! (i div 10), ''0123456789'' ! (i mod 10)],
      Health = ''Healthy''\<rparr>"

definition payload :: "string \<Rightarrow> bool \<Rightarrow> ListAndWatchResponse" where
  "payload bridge present =
     (if present then \<lparr>Devices = map (poolDevice bridge) [0..<100]\<rparr> else \<lparr>Devices = []\<rparr>)"

section \<open>Allocator\<close>

record Assignment =
  DeviceID :: string
  ContainerPath :: string
  Created :: int

record vnic =
  vnicName :: string
  vnicProtocol :: string

record networkInterfaceResources =
  Name :: string
  Interfaces :: "vnic list"

text \<open>
  The messages of the device plugin API that \<^verbatim>\<open>Allocate\<close> reads and builds.
  \<^verbatim>\<open>DeviceSpec.ContainerPath\<close> is the field \<open>SpecContainerPath\<close> and
  \<^verbatim>\<open>ContainerAllocateResponse.Devices\<close> the field \<open>DeviceSpecs\<close>, since the names
  \<open>ContainerPath\<close> and \<open>Devices\<close> are taken by the records above. \<^verbatim>\<open>Envs\<close> is a Go
  map from names to values.
\<close>

record DeviceSpec =
  SpecContainerPath :: string
  HostPath :: string
  Permissions :: string

record ContainerAllocateRequest =
  DevicesIDs :: "string list"

record AllocateRequest =
  ContainerRequests :: "ContainerAllocateRequest list"

record ContainerAllocateResponse =
  Envs :: "string \<rightharpoonup> string"
  DeviceSpecs :: "DeviceSpec list"

record AllocateResponse =
  ContainerResponses :: "ContainerAllocateResponse list"

subsection \<open>What the handler reads and writes outside itself\<close>

text \<open>
  \<^verbatim>\<open>Allocate\<close> reads the clock (\<^verbatim>\<open>time.Now\<close>) and the process-wide random source
  (\<^verbatim>\<open>rand.Intn\<close>), and sends on the channel \<^verbatim>\<open>nbdp.assignmentCh\<close>. The clock and
  the random source are streams, each with the number of values already taken from it;
  the channel is the list of the values sent on it and not yet received, oldest first.
  A send that has to wait for the receiver is not modelled: the value is in the list once
  the send statement has run.
\<close>

record runtime =
  timeSrc :: "nat \<Rightarrow> int"
  timeCalls :: nat
  randSrc :: "nat \<Rightarrow> nat"
  randCalls :: nat
  assignmentCh :: "Assignment list"

definition time_Now :: "runtime \<Rightarrow> int \<times> runtime" where
  "time_Now s = (timeSrc s (timeCalls s), s\<lparr>timeCalls := timeCalls s + 1\<rparr>)"

text \<open>\<^verbatim>\<open>rand.Intn(n)\<close> for a positive \<open>n\<close>: some number below \<open>n\<close>.\<close>

definition rand_Intn :: "nat \<Rightarrow> runtime \<Rightarrow> nat \<times> runtime" where
  "rand_Intn n s = (randSrc s (randCalls s) mod n, s\<lparr>randCalls := randCalls s + 1\<rparr>)"

definition send :: "Assignment \<Rightarrow> runtime \<Rightarrow> runtime" where
  "send a s = s\<lparr>assignmentCh := assignmentCh s @ [a]\<rparr>"

subsection \<open>randString, randInterfaceName and strings.ToUpper\<close>

text \<open>
  \<^verbatim>\<open>for i := range b { b[i] = letterBytes[rand.Intn(len(letterBytes))] }\<close> over the
  byte slice \<^verbatim>\<open>b := make([]byte, length)\<close>, which starts as zero bytes.
\<close>

function randString_loop :: "nat \<Rightarrow> string \<Rightarrow> runtime \<Rightarrow> string \<times> runtime" where
  "randString_loop i b s =
     (if i < length b
      then (let (r, s') = rand_Intn (length letterBytes) s
            in randString_loop (i + 1) (b[i := letterBytes ! r]) s')
      else (b, s))"
  by pat_completeness auto
termination
  by (relation "measure (\<lambda>(i, b, s). length b - i)") auto

declare randString_loop.simps [simp del]

definition randString :: "nat \<Rightarrow> runtime \<Rightarrow> string \<times> runtime" where
  "randString len s = randString_loop 0 (replicate len (CHR 0x00)) s"

definition randInterfaceName :: "runtime \<Rightarrow> string \<times> runtime" where
  "randInterfaceName s =
     (let suffixLength = interfaceNameLen - length interfaceNamePrefix;
          (suffix, s') = randString suffixLength s
      in (interfaceNamePrefix @ suffix, s'))"

text \<open>
  \<^verbatim>\<open>strings.ToUpper\<close> on a string of ASCII bytes, the only strings \<^verbatim>\<open>randString\<close>
  gives it: the letters \<^verbatim>\<open>a\<close> to \<^verbatim>\<open>z\<close> move down by \<^verbatim>\<open>'a' - 'A'\<close>, every other
  byte stays.
\<close>

definition toUpperByte :: "char \<Rightarrow> char" where
  "toUpperByte c =
     (let n = of_char c :: nat in if 97 \<le> n \<and> n \<le> 122 then char_of (n - 32) else c)"

definition ToUpper :: "string \<Rightarrow> string" where
  "ToUpper s = map toUpperByte s"

subsection \<open>json.Marshal of the resource descriptor\<close>

text \<open>
  \<^verbatim>\<open>encoding/json\<close> is not part of the repository. \<^verbatim>\<open>Allocate\<close> takes the marshaller
  as a parameter, a function to an error or the text, so that both branches of
  \<^verbatim>\<open>if err != nil\<close> are branches of the model. \<open>json_Marshal\<close> is the marshaller of
  the Go library on the type \<^verbatim>\<open>networkInterfaceResources\<close>: an object with the keys of
  the struct tags in field order, no white space; a slice as an array, the nil slice as
  \<^verbatim>\<open>null\<close> (\<^verbatim>\<open>vnics\<close> is nil exactly when nothing was appended to it); a string between
  double quotes, copied as it is when each of its bytes is in the library's table
  \<^verbatim>\<open>htmlSafeSet\<close> (the ASCII bytes from the space on, without the double quote,
  \<^verbatim>\<open>&\<close>, \<^verbatim>\<open><\<close>, \<^verbatim>\<open>>\<close> and the backslash). What the library writes for a string with
  another byte in it is the parameter \<open>escape\<close>. On this type the library never fails.

  \<open>json_escape\<close>, further down, is what the library writes there (its
  \<^verbatim>\<open>encodeState.string\<close> with \<^verbatim>\<open>escapeHTML\<close> set, as \<^verbatim>\<open>json.Marshal\<close> sets it), byte
  by byte: an ASCII byte of \<^verbatim>\<open>htmlSafeSet\<close> as it is; the double quote and the backslash
  after a backslash; the line feed, the carriage return and the tabulator as a backslash
  and \<^verbatim>\<open>n\<close>, \<^verbatim>\<open>r\<close> or \<^verbatim>\<open>t\<close>; every other ASCII byte as a backslash and \<^verbatim>\<open>u00\<close>
  with the two hexadecimal digits of the byte; a byte that starts no well-formed UTF-8
  sequence as a backslash and \<^verbatim>\<open>ufffd\<close>; the characters U+2028 and U+2029 as a
  backslash and \<^verbatim>\<open>u2028\<close> or \<^verbatim>\<open>u2029\<close>; every other well-formed UTF-8 sequence as
  it is. \<open>DecodeRuneInString\<close> is \<^verbatim>\<open>utf8.DecodeRuneInString\<close> with its tables
  \<^verbatim>\<open>first\<close> and \<^verbatim>\<open>acceptRanges\<close>: the character and the number of bytes read, and
  \<^verbatim>\<open>RuneError\<close> with the length 1 at a byte that starts no well-formed sequence.
\<close>

definition htmlSafe :: "char \<Rightarrow> bool" where
  "htmlSafe c =
     (let n = of_char c :: nat
      in 32 \<le> n \<and> n < 128 \<and> n \<noteq> 34 \<and> n \<noteq> 38 \<and> n \<noteq> 60 \<and> n \<noteq> 62 \<and> n \<noteq> 92)"

definition json_string :: "(string \<Rightarrow> string) \<Rightarrow> string \<Rightarrow> string" where
  \<open>json_string escape s = ''"'' @ (if list_all htmlSafe s then s else escape s) @ ''"''\<close>

fun json_join :: "string list \<Rightarrow> string" where
  "json_join [] = []"
| "json_join [x] = x"
| "json_join (x # y # ys) = x @ '','' @ json_join (y # ys)"

definition json_vnic :: "(string \<Rightarrow> string) \<Rightarrow> vnic \<Rightarrow> string" where
  \<open>json_vnic escape v =
     ''{"name":'' @ json_string escape (vnicName v)
       @ '',"protocol":'' @ json_string escape (vnicProtocol v) @ ''}''\<close>

definition json_Marshal :: "(string \<Rightarrow> string) \<Rightarrow> networkInterfaceResources \<Rightarrow> string + string" where
  \<open>json_Marshal escape v =
     Inr (''{"name":'' @ json_string escape (Name v) @ '',"interfaces":''
          @ (if Interfaces v = [] then ''null''
             else ''['' @ json_join (map (json_vnic escape) (Interfaces v)) @ '']'')
          @ ''}'')\<close>

definition hex :: string where
  "hex = ''0123456789abcdef''"

definition RuneError :: nat where
  "RuneError = 0xFFFD"

definition utf8_first :: "nat \<Rightarrow> nat" where
  "utf8_first b =
     (if b < 0x80 then 0xF0 else if b < 0xC2 then 0xF1 else if b < 0xE0 then 0x02
      else if b = 0xE0 then 0x13 else if b < 0xED then 0x03 else if b = 0xED then 0x23
      else if b < 0xF0 then 0x03 else if b = 0xF0 then 0x34 else if b < 0xF4 then 0x04
      else if b = 0xF4 then 0x44 else 0xF1)"

definition acceptRanges :: "nat \<Rightarrow> nat \<times> nat" where
  "acceptRanges n = [(0x80, 0xBF), (0xA0, 0xBF), (0x80, 0x9F), (0x90, 0xBF), (0x80, 0x8F)] ! n"

definition DecodeRuneInString :: "string \<Rightarrow> nat \<times> nat" where
  "DecodeRuneInString s =
     (let n = length s
      in if n < 1 then (RuneError, 0)
         else
           let s0 = of_char (s ! 0) :: nat;
               x = utf8_first s0
           in if x \<ge> 0xF0 then (if x = 0xF1 then RuneError else s0, 1)
              else
                let sz = x mod 8;
                    (lo, hi) = acceptRanges (x div 16)
                in if n < sz then (RuneError, 1)
                   else
                     let s1 = of_char (s ! 1) :: nat
                     in if s1 < lo \<or> hi < s1 then (RuneError, 1)
                        else if sz \<le> 2 then (s0 mod 32 * 64 + s1 mod 64, 2)
                        else
                          let s2 = of_char (s ! 2) :: nat
                          in if s2 < 0x80 \<or> 0xBF < s2 then (RuneError, 1)
                             else if sz \<le> 3
                                  then (s0 mod 16 * 4096 + s1 mod 64 * 64 + s2 mod 64, 3)
                             else
                               let s3 = of_char (s ! 3) :: nat
                               in if s3 < 0x80 \<or> 0xBF < s3 then (RuneError, 1)
                                  else (s0 mod 8 * 262144 + s1 mod 64 * 4096 + s2 mod 64 * 64
                                          + s3 mod 64, 4))"

definition escapeByte :: "char \<Rightarrow> string" where
  "escapeByte b =
     (if b = CHR 0x5C \<or> b = CHR 0x22 then [CHR 0x5C, b]
      else if b = CHR 0x0A then [CHR 0x5C, CHR ''n'']
      else if b = CHR 0x0D then [CHR 0x5C, CHR ''r'']
      else if b = CHR 0x09 then [CHR 0x5C, CHR ''t'']
      else CHR 0x5C # ''u00'' @ [hex ! (of_char b div 16), hex ! (of_char b mod 16)])"

function json_escape :: "string \<Rightarrow> string" where
  "json_escape [] = []"
| "json_escape (b # bs) =
     (if (of_char b :: nat) < 0x80
      then (if htmlSafe b then [b] else escapeByte b) @ json_escape bs
      else
        let (c, size) = DecodeRuneInString (b # bs)
        in if c = RuneError \<and> size = 1
           then CHR 0x5C # ''ufffd'' @ json_escape bs
           else if c = 0x2028 \<or> c = 0x2029
           then CHR 0x5C # ''u202'' @ [hex ! (c mod 16)] @ json_escape (drop size (b # bs))
           else take size (b # bs) @ json_escape (drop size (b # bs)))"
  by pat_completeness auto
termination
proof (relation "measure length")
  fix b :: char and bs x c n
  assume "x = DecodeRuneInString (b # bs)" "(c, n) = x"
  then have "n = snd (DecodeRuneInString (b # bs))"
    by (metis snd_conv)
  moreover have "0 < snd (DecodeRuneInString (b # bs))"
    by (simp add: DecodeRuneInString_def Let_def split: prod.splits)
  ultimately show shorter: "(drop n (b # bs), b # bs) \<in> measure length"
    by simp
  show "(drop n (b # bs), b # bs) \<in> measure length"
    by (rule shorter)
qed simp_all

declare json_escape.simps [simp del]

subsection \<open>getAssignmentPath and Allocate\<close>

definition getAssignmentPath :: "string \<Rightarrow> string \<Rightarrow> string" where
  "getAssignmentPath bridge nic = ''/tmp/device-plugin-network-bridge/'' @ bridge @ ''/'' @ nic"

text \<open>
  The inner loop \<^verbatim>\<open>for _, nic := range req.DevicesIDs\<close>, on the variables
  \<^verbatim>\<open>devices\<close> and \<^verbatim>\<open>vnics\<close>.
\<close>

fun Allocate_devices ::
  "string \<Rightarrow> string list \<Rightarrow> DeviceSpec list \<Rightarrow> vnic list \<Rightarrow> runtime
     \<Rightarrow> DeviceSpec list \<times> vnic list \<times> runtime" where
  "Allocate_devices bridge [] devices vnics s = (devices, vnics, s)"
| "Allocate_devices bridge (nic # nics) devices vnics s =
     (let assignmentPath = getAssignmentPath bridge nic;
          dev = \<lparr>SpecContainerPath = assignmentPath, HostPath = fakeDevicePath, Permissions = ''r''\<rparr>;
          devices' = devices @ [dev];
          vnics' = vnics @ [\<lparr>vnicName = nic, vnicProtocol = protocolEthernet\<rparr>];
          (now, s1) = time_Now s;
          s2 = send \<lparr>DeviceID = nic, ContainerPath = assignmentPath, Created = now\<rparr> s1
      in Allocate_devices bridge nics devices' vnics' s2)"

text \<open>
  The outer loop \<^verbatim>\<open>for _, req := range r.ContainerRequests\<close>. The constant
  \<^verbatim>\<open>resourceNamespace\<close> is declared in another file of the package and is a parameter
  here. A marshalling error is logged and the loop goes on with the next request.
\<close>

fun Allocate_requests ::
  "(networkInterfaceResources \<Rightarrow> string + string) \<Rightarrow> string \<Rightarrow> string
     \<Rightarrow> ContainerAllocateRequest list \<Rightarrow> AllocateResponse \<Rightarrow> runtime
     \<Rightarrow> AllocateResponse \<times> runtime" where
  "Allocate_requests marshal resourceNamespace bridge [] response s = (response, s)"
| "Allocate_requests marshal resourceNamespace bridge (req # reqs) response s =
     (let (devices, vnics, s1) = Allocate_devices bridge (DevicesIDs req) [] [] s;
          vnicsPerInterface = \<lparr>Name = resourceNamespace @ ''/'' @ bridge, Interfaces = vnics\<rparr>;
          (suffix, s2) = randString envVarNameSuffixLen s1;
          envVarName = envVarNamePrefix @ ToUpper suffix
      in case marshal vnicsPerInterface of
           Inl err \<Rightarrow> Allocate_requests marshal resourceNamespace bridge reqs response s2
         | Inr marshalled \<Rightarrow>
             (let envs = Map.empty(envVarName \<mapsto> marshalled)
              in Allocate_requests marshal resourceNamespace bridge reqs
                   (response\<lparr>ContainerResponses :=
                      ContainerResponses response @ [\<lparr>Envs = envs, DeviceSpecs = devices\<rparr>]\<rparr>)
                   s2))"

text \<open>\<^verbatim>\<open>Allocate\<close> returns the response and the error, which is always nil.\<close>

definition Allocate ::
  "(networkInterfaceResources \<Rightarrow> string + string) \<Rightarrow> string \<Rightarrow> string
     \<Rightarrow> AllocateRequest \<Rightarrow> runtime \<Rightarrow> (string + AllocateResponse) \<times> runtime" where
  "Allocate marshal resourceNamespace bridge r s =
     (let (response, s') =
            Allocate_requests marshal resourceNamespace bridge (ContainerRequests r)
              \<lparr>ContainerResponses = []\<rparr> s
      in (Inr response, s'))"

subsection \<open>What Allocate builds, stated directly\<close>

text \<open>
  The values the properties below compare \<^verbatim>\<open>Allocate\<close> with: the Assignments sent for
  a list of device IDs, the descriptor and the device specs of one request, the name of
  the environment variable made from the eight draws that start at draw \<open>c\<close>, and the
  responses of a list of requests.
\<close>

definition newAssignments :: "string \<Rightarrow> string list \<Rightarrow> runtime \<Rightarrow> Assignment list" where
  "newAssignments bridge nics s =
     map2 (\<lambda>nic k. \<lparr>DeviceID = nic, ContainerPath = getAssignmentPath bridge nic, Created = timeSrc s k\<rparr>)
       nics [timeCalls s..<timeCalls s + length nics]"

definition descriptorOf :: "string \<Rightarrow> string \<Rightarrow> ContainerAllocateRequest \<Rightarrow> networkInterfaceResources" where
  "descriptorOf ns bridge req =
     \<lparr>Name = ns @ ''/'' @ bridge,
      Interfaces = map (\<lambda>nic. \<lparr>vnicName = nic, vnicProtocol = protocolEthernet\<rparr>) (DevicesIDs req)\<rparr>"

definition deviceSpecsOf :: "string \<Rightarrow> ContainerAllocateRequest \<Rightarrow> DeviceSpec list" where
  "deviceSpecsOf bridge req =
     map (\<lambda>nic. \<lparr>SpecContainerPath = getAssignmentPath bridge nic,
                  HostPath = fakeDevicePath, Permissions = ''r''\<rparr>) (DevicesIDs req)"

definition envVarNameAt :: "(nat \<Rightarrow> nat) \<Rightarrow> nat \<Rightarrow> string" where
  "envVarNameAt src c =
     envVarNamePrefix @ ToUpper (map (\<lambda>j. letterBytes ! (src (c + j) mod 36)) [0..<8])"

fun responsesFrom ::
  "(networkInterfaceResources \<Rightarrow> string + string) \<Rightarrow> string \<Rightarrow> string \<Rightarrow> (nat \<Rightarrow> nat) \<Rightarrow> nat
     \<Rightarrow> ContainerAllocateRequest list \<Rightarrow> ContainerAllocateResponse list" where
  "responsesFrom marshal ns bridge src c [] = []"
| "responsesFrom marshal ns bridge src c (req # reqs) =
     (case marshal (descriptorOf ns bridge req) of
        Inl err \<Rightarrow> []
      | Inr m \<Rightarrow> [\<lparr>Envs = Map.empty(envVarNameAt src c \<mapsto> m), DeviceSpecs = deviceSpecsOf bridge req\<rparr>])
     @ responsesFrom marshal ns bridge src (c + 8) reqs"

definition responseAt ::
  "(networkInterfaceResources \<Rightarrow> string + string) \<Rightarrow> string \<Rightarrow> string \<Rightarrow> (nat \<Rightarrow> nat) \<Rightarrow> nat
     \<Rightarrow> ContainerAllocateRequest list \<Rightarrow> nat \<Rightarrow> ContainerAllocateResponse" where
  "responseAt marshal ns bridge src c reqs k =
     \<lparr>Envs = Map.empty(envVarNameAt src (c + 8 * k) \<mapsto> projr (marshal (descriptorOf ns bridge (reqs ! k)))),
      DeviceSpecs = deviceSpecsOf bridge (reqs ! k)\<rparr>"

subsection \<open>Example calls\<close>

text \<open>
  A runtime whose clock starts at 1000 and whose random source repeats with period eight,
  a call with two requests (the first is the one of the specification's scenario), a call
  for a device of a bridge named \<^verbatim>\<open>br&0\<close>, a marshaller that fails on every descriptor
  but those with one interface, and the results of \<^verbatim>\<open>Allocate\<close> on them.
\<close>

definition exampleRuntime :: runtime where
  "exampleRuntime =
     \<lparr>timeSrc = (\<lambda>k. 1000 + int k), timeCalls = 0, randSrc = (\<lambda>k. k mod 8), randCalls = 0,
      assignmentCh = []\<rparr>"

definition exampleRequest :: AllocateRequest where
  "exampleRequest =
     \<lparr>ContainerRequests = [\<lparr>DevicesIDs = [''br0-07'']\<rparr>, \<lparr>DevicesIDs = [''br0-01'', ''br0-02'']\<rparr>]\<rparr>"


definition ampersandRequest :: AllocateRequest where
  "ampersandRequest = \<lparr>ContainerRequests = [\<lparr>DevicesIDs = [''br&0-07'']\<rparr>]\<rparr>"

definition exampleResponse :: AllocateResponse where
  \<open>exampleResponse =
     \<lparr>ContainerResponses =
        [\<lparr>Envs = Map.empty(''NETWORK_INTERFACE_RESOURCES_ABCDEFGH'' \<mapsto>
            ''{"name":"example.org/br0","interfaces":[{"name":"br0-07","protocol":"Ethernet"}]}''),
          DeviceSpecs =
            [\<lparr>SpecContainerPath = ''/tmp/device-plugin-network-bridge/br0/br0-07'',
              HostPath = ''/var/run/device-plugin-network-bridge-fakedev'',
              Permissions = ''r''\<rparr>]\<rparr>,
         \<lparr>Envs = Map.empty(''NETWORK_INTERFACE_RESOURCES_ABCDEFGH'' \<mapsto>
            ''{"name":"example.org/br0","interfaces":[{"name":"br0-01","protocol":"Ethernet"},{"name":"br0-02","protocol":"Ethernet"}]}''),
          DeviceSpecs =
            [\<lparr>SpecContainerPath = ''/tmp/device-plugin-network-bridge/br0/br0-01'',
              HostPath = ''/var/run/device-plugin-network-bridge-fakedev'',
              Permissions = ''r''\<rparr>,
             \<lparr>SpecContainerPath = ''/tmp/device-plugin-network-bridge/br0/br0-02'',
              HostPath = ''/var/run/device-plugin-network-bridge-fakedev'',
              Permissions = ''r''\<rparr>]\<rparr>]\<rparr>\<close>


definition exampleRuntimeAfter :: runtime where
  "exampleRuntimeAfter =
     exampleRuntime\<lparr>timeCalls := 3, randCalls := 16,
       assignmentCh :=
         [\<lparr>DeviceID = ''br0-07'', ContainerPath = ''/tmp/device-plugin-network-bridge/br0/br0-07'',
           Created = 1000\<rparr>,
          \<lparr>DeviceID = ''br0-01'', ContainerPath = ''/tmp/device-plugin-network-bridge/br0/br0-01'',
           Created = 1001\<rparr>,
          \<lparr>DeviceID = ''br0-02'', ContainerPath = ''/tmp/device-plugin-network-bridge/br0/br0-02'',
           Created = 1002\<rparr>]\<rparr>"

section \<open>Attachment Engine\<close>

subsection \<open>Links, and what the engine calls outside itself\<close>

text \<open>
  The packages \<^verbatim>\<open>netlink\<close>, \<^verbatim>\<open>netns\<close> and \<^verbatim>\<open>dockerutils\<close> are not part of the
  repository. A Go \<^verbatim>\<open>error\<close> is its message. Of \<^verbatim>\<open>netlink.LinkAttrs\<close> the record has
  the fields the source reads or writes (\<^verbatim>\<open>Name\<close> is the field \<open>AttrName\<close>); a
  \<^verbatim>\<open>netlink.Link\<close> is a bridge, a veth with its peer name, or some other device.
\<close>

type_synonym error = string

record LinkAttrs =
  Index :: int
  MTU :: int
  AttrName :: string
  MasterIndex :: int
  NetNsID :: int

datatype Link = Bridge LinkAttrs | Veth LinkAttrs string | Device LinkAttrs

fun Attrs :: "Link \<Rightarrow> LinkAttrs" where
  "Attrs (Bridge attrs) = attrs"
| "Attrs (Veth attrs peerName) = attrs"
| "Attrs (Device attrs) = attrs"

text \<open>
  The calls of the three packages are parameters: functions on a state \<open>'k\<close> of the
  kernel and the container runtime, each returning an error or its value, and the next
  state. Nothing is assumed about them.
\<close>

record 'k sys =
  LinkByName :: "string \<Rightarrow> 'k \<Rightarrow> (error + Link) \<times> 'k"
  LinkAdd :: "Link \<Rightarrow> 'k \<Rightarrow> (error + unit) \<times> 'k"
  LinkSetUp :: "Link \<Rightarrow> 'k \<Rightarrow> (error + unit) \<times> 'k"
  LinkDel :: "Link \<Rightarrow> 'k \<Rightarrow> (error + unit) \<times> 'k"
  LinkSetNsPid :: "Link \<Rightarrow> int \<Rightarrow> 'k \<Rightarrow> (error + unit) \<times> 'k"
  LinkSetMTU :: "Link \<Rightarrow> int \<Rightarrow> 'k \<Rightarrow> (error + unit) \<times> 'k"
  netns_Get :: "'k \<Rightarrow> (error + int) \<times> 'k"
  netns_GetFromPid :: "int \<Rightarrow> 'k \<Rightarrow> (error + int) \<times> 'k"
  netns_Set :: "int \<Rightarrow> 'k \<Rightarrow> (error + unit) \<times> 'k"
  NewClient :: "'k \<Rightarrow> (error + unit) \<times> 'k"
  GetContainerIDByMountedDevice :: "string \<Rightarrow> 'k \<Rightarrow> (error + string) \<times> 'k"
  GetPidByContainerID :: "string \<Rightarrow> 'k \<Rightarrow> (error + int) \<times> 'k"

text \<open>
  The world of the engine: the kernel state, the process-wide runtime of the Allocator
  (clock and random source), and the list of the calls made so far, each with its
  arguments and its reply. The list is there for the properties; no code reads it.
\<close>

datatype op =
    OpLinkByName string
  | OpLinkAdd Link
  | OpLinkSetUp Link
  | OpLinkDel Link
  | OpLinkSetNsPid Link int
  | OpLinkSetMTU Link int
  | OpNsGet
  | OpNsGetFromPid int
  | OpNsSet int
  | OpNewClient
  | OpGetContainerID string
  | OpGetPid string

datatype reply = Err error | Done | GotLink Link | GotNs int | GotID string | GotPid int

record 'k world =
  kernel :: 'k
  trace :: "(op \<times> reply) list"
  rt :: runtime

text \<open>One call: run it on the kernel state and write it down.\<close>

definition call ::
  "op \<Rightarrow> ('a \<Rightarrow> reply) \<Rightarrow> ('k \<Rightarrow> (error + 'a) \<times> 'k) \<Rightarrow> 'k world \<Rightarrow> (error + 'a) \<times> 'k world" where
  "call what answer f w =
     (let (res, k) = f (kernel w)
      in (res, w\<lparr>kernel := k,
                 trace := trace w @ [(what, case res of Inl err \<Rightarrow> Err err | Inr v \<Rightarrow> answer v)]\<rparr>))"

subsection \<open>attachPodToBridge\<close>

text \<open>
  A Go function ends by returning or by panicking. \<open>guarded\<close> is the statement the source
  repeats after the veth pair exists,
  \<^verbatim>\<open>v, err := step(); if err != nil { netlink.LinkDel(link); return err }\<close>,
  followed by the rest of the function; the result of \<^verbatim>\<open>LinkDel\<close> is dropped, as in the
  source. \<open>deferred\<close> is the \<^verbatim>\<open>defer\<close> statement: the body runs to its return, then
  \<^verbatim>\<open>netns.Set(originalNS)\<close> runs, and its error is a panic.
\<close>

datatype 'a exit = Return 'a | Panic error

definition guarded ::
  "'k sys \<Rightarrow> Link \<Rightarrow> ('k world \<Rightarrow> (error + 'a) \<times> 'k world)
     \<Rightarrow> ('a \<Rightarrow> 'k world \<Rightarrow> error option exit \<times> 'k world)
     \<Rightarrow> 'k world \<Rightarrow> error option exit \<times> 'k world" where
  "guarded sys link step rest w =
     (case step w of
        (Inl err, w1) \<Rightarrow>
          (let (_, w2) = call (OpLinkDel link) (\<lambda>_. Done) (LinkDel sys link) w1
           in (Return (Some err), w2))
      | (Inr v, w1) \<Rightarrow> rest v w1)"

definition deferred ::
  "'k sys \<Rightarrow> int \<Rightarrow> ('k world \<Rightarrow> error option exit \<times> 'k world)
     \<Rightarrow> 'k world \<Rightarrow> error option exit \<times> 'k world" where
  "deferred sys originalNS body w =
     (let (r, w1) = body w
      in case call (OpNsSet originalNS) (\<lambda>_. Done) (netns_Set sys originalNS) w1 of
           (Inl setErr, w2) \<Rightarrow> (Panic setErr, w2)
         | (Inr _, w2) \<Rightarrow> (r, w2))"

text \<open>
  The function from the first statement after \<^verbatim>\<open>netlink.LinkAdd(link)\<close> has succeeded to
  its end (lines 265 to 338), and the whole function. \<^verbatim>\<open>LinkAdd\<close> may write the index
  the kernel chose into \<^verbatim>\<open>link\<close>; the source reads only \<^verbatim>\<open>link.MTU\<close> afterwards, so
  the model keeps the value it built.
\<close>

definition attach_created ::
  "'k sys \<Rightarrow> Link \<Rightarrow> string \<Rightarrow> int \<Rightarrow> 'k world \<Rightarrow> error option exit \<times> 'k world" where
  "attach_created sys link nicName containerPid =
     guarded sys link (call (OpLinkSetUp link) (\<lambda>_. Done) (LinkSetUp sys link)) (\<lambda>_.
     guarded sys link (call (OpLinkByName nicName) GotLink (LinkByName sys nicName)) (\<lambda>peer.
     guarded sys link (call (OpLinkSetNsPid peer containerPid) (\<lambda>_. Done)
                         (LinkSetNsPid sys peer containerPid)) (\<lambda>_.
     guarded sys link (call OpNsGet GotNs (netns_Get sys)) (\<lambda>originalNS.
     guarded sys link (call (OpNsGetFromPid containerPid) GotNs
                         (netns_GetFromPid sys containerPid)) (\<lambda>ns.
     guarded sys link (call (OpNsSet ns) (\<lambda>_. Done) (netns_Set sys ns)) (\<lambda>_.
     deferred sys originalNS (
       guarded sys link (call (OpLinkByName nicName) GotLink (LinkByName sys nicName)) (\<lambda>peer.
       guarded sys link (call (OpLinkSetMTU peer (MTU (Attrs link))) (\<lambda>_. Done)
                           (LinkSetMTU sys peer (MTU (Attrs link)))) (\<lambda>_.
       guarded sys link (call (OpLinkSetUp peer) (\<lambda>_. Done) (LinkSetUp sys peer)) (\<lambda>_.
       (\<lambda>w. (Return None, w))))))))))))"

definition attachPodToBridge ::
  "'k sys \<Rightarrow> string \<Rightarrow> string \<Rightarrow> int \<Rightarrow> 'k world \<Rightarrow> error option exit \<times> 'k world" where
  "attachPodToBridge sys bridgeName nicName containerPid w0 =
     (let (linkName, r) = randInterfaceName (rt w0);
          w = w0\<lparr>rt := r\<rparr>
      in case call (OpLinkByName bridgeName) GotLink (LinkByName sys bridgeName) w of
           (Inl err, w1) \<Rightarrow> (Return (Some err), w1)
         | (Inr bridge, w1) \<Rightarrow>
             (let link = Veth \<lparr>Index = 0, MTU = MTU (Attrs bridge), AttrName = linkName,
                               MasterIndex = Index (Attrs bridge),
                               NetNsID = NetNsID (Attrs bridge)\<rparr> nicName
              in case call (OpLinkAdd link) (\<lambda>_. Done) (LinkAdd sys link) w1 of
                   (Inl err, w2) \<Rightarrow> (Return (Some err), w2)
                 | (Inr _, w2) \<Rightarrow> attach_created sys link nicName containerPid w2))"

subsection \<open>The calls of one run, and the invariants of the proofs\<close>





subsection \<open>A simulated kernel\<close>

text \<open>
  An instance of the parameters, for the examples: the names of the links that exist, and
  a script that says for each call in turn whether it succeeds (every call after the end
  of the script does). Adding a veth adds both of its ends, deleting a link removes both.
\<close>

record simKernel =
  links :: "string list"
  script :: "bool list"
  mounts :: "(string \<times> string) list"
  pids :: "(string \<times> int) list"

definition sim_next :: "simKernel \<Rightarrow> bool \<times> simKernel" where
  "sim_next k = (case script k of [] \<Rightarrow> (True, k) | b # bs \<Rightarrow> (b, k\<lparr>script := bs\<rparr>))"

definition sim_do :: "error \<Rightarrow> (simKernel \<Rightarrow> simKernel) \<Rightarrow> simKernel \<Rightarrow> (error + unit) \<times> simKernel" where
  "sim_do err effect k = (let (ok, k1) = sim_next k in if ok then (Inr (), effect k1) else (Inl err, k1))"

definition sim_get :: "error \<Rightarrow> int \<Rightarrow> simKernel \<Rightarrow> (error + int) \<times> simKernel" where
  "sim_get err v k = (let (ok, k1) = sim_next k in if ok then (Inr v, k1) else (Inl err, k1))"

fun linkNames :: "Link \<Rightarrow> string list" where
  "linkNames (Veth attrs peerName) = [AttrName attrs, peerName]"
| "linkNames (Bridge attrs) = [AttrName attrs]"
| "linkNames (Device attrs) = [AttrName attrs]"

definition simLinkByName :: "string \<Rightarrow> simKernel \<Rightarrow> (error + Link) \<times> simKernel" where
  "simLinkByName name k =
     (let (ok, k1) = sim_next k
      in if ok \<and> name \<in> set (links k1)
         then (Inr (Device \<lparr>Index = 2, MTU = 1500, AttrName = name, MasterIndex = 0, NetNsID = 0\<rparr>), k1)
         else (Inl ''Link not found'', k1))"

definition simSys :: "simKernel sys" where
  "simSys =
     \<lparr>LinkByName = simLinkByName,
      LinkAdd = (\<lambda>link. sim_do ''file exists'' (\<lambda>k. k\<lparr>links := links k @ linkNames link\<rparr>)),
      LinkSetUp = (\<lambda>link. sim_do ''operation not permitted'' id),
      LinkDel = (\<lambda>link. sim_do ''device or resource busy''
                   (\<lambda>k. k\<lparr>links := filter (\<lambda>n. n \<notin> set (linkNames link)) (links k)\<rparr>)),
      LinkSetNsPid = (\<lambda>link pid. sim_do ''no such process'' id),
      LinkSetMTU = (\<lambda>link mtu. sim_do ''invalid argument'' id),
      netns_Get = sim_get ''bad file descriptor'' 3,
      netns_GetFromPid = (\<lambda>pid. sim_get ''no such process'' 4),
      netns_Set = (\<lambda>ns. sim_do ''operation not permitted'' id),
      NewClient = (\<lambda>k. (Inr (), k)),
      GetContainerIDByMountedDevice =
        (\<lambda>path k. case map_of (mounts k) path of
                     None \<Rightarrow> (Inl ''container not found'', k) | Some c \<Rightarrow> (Inr c, k)),
      GetPidByContainerID =
        (\<lambda>c k. case map_of (pids k) c of
                  None \<Rightarrow> (Inl ''pid not found'', k) | Some pid \<Rightarrow> (Inr pid, k))\<rparr>"


definition exampleLink :: Link where
  "exampleLink =
     Veth \<lparr>Index = 0, MTU = 1500, AttrName = ''nic_abcdefghabc'', MasterIndex = 2, NetNsID = 0\<rparr> ''br0-07''"

definition br0Link :: Link where
  "br0Link = Device \<lparr>Index = 2, MTU = 1500, AttrName = ''br0'', MasterIndex = 0, NetNsID = 0\<rparr>"

definition peerLink :: Link where
  "peerLink = Device \<lparr>Index = 2, MTU = 1500, AttrName = ''br0-07'', MasterIndex = 0, NetNsID = 0\<rparr>"

subsection \<open>A simulated kernel with network namespaces\<close>

text \<open>
  A second instance of the parameters. Every link is in one network namespace and the
  calling thread is in one; a call of \<^verbatim>\<open>netlink\<close> finds a link only in the namespace of
  the calling thread, which is what the source relies on when it looks the peer up again
  after \<^verbatim>\<open>netns.Set(ns)\<close> (line 318). \<^verbatim>\<open>netns.Set\<close> moves the thread,
  \<^verbatim>\<open>LinkSetNsPid\<close> moves a link into the namespace of a process, adding a veth puts both
  of its ends into the namespace of the thread, and deleting one end deletes the other
  wherever it is. \<open>faults\<close> says for each call in turn whether the kernel lets it through
  (every call after the end of the list is let through). In the example world the bridge
  \<^verbatim>\<open>br0\<close> and the thread are in the namespace 3 and the process 4242 is in the
  namespace 4.
\<close>

record nsKernel =
  nsLinks :: "(string \<times> int) list"
  veths :: "(string \<times> string) list"
  threadNs :: int
  procNs :: "(int \<times> int) list"
  faults :: "bool list"

definition ns_next :: "nsKernel \<Rightarrow> bool \<times> nsKernel" where
  "ns_next k = (case faults k of [] \<Rightarrow> (True, k) | b # bs \<Rightarrow> (b, k\<lparr>faults := bs\<rparr>))"

definition ns_here :: "nsKernel \<Rightarrow> string \<Rightarrow> bool" where
  "ns_here k name = ((name, threadNs k) \<in> set (nsLinks k))"

definition ns_on_link ::
  "error \<Rightarrow> Link \<Rightarrow> (nsKernel \<Rightarrow> error + nsKernel) \<Rightarrow> nsKernel \<Rightarrow> (error + unit) \<times> nsKernel" where
  "ns_on_link fault link effect k =
     (let (ok, k1) = ns_next k
      in if \<not> ok then (Inl fault, k1)
         else if \<not> ns_here k1 (AttrName (Attrs link)) then (Inl ''no such device'', k1)
         else case effect k1 of Inl err \<Rightarrow> (Inl err, k1) | Inr k2 \<Rightarrow> (Inr (), k2))"

definition ns_get :: "error \<Rightarrow> (nsKernel \<Rightarrow> int option) \<Rightarrow> nsKernel \<Rightarrow> (error + int) \<times> nsKernel" where
  "ns_get fault read k =
     (let (ok, k1) = ns_next k
      in case (if ok then read k1 else None) of None \<Rightarrow> (Inl fault, k1) | Some v \<Rightarrow> (Inr v, k1))"

definition ns_ends :: "nsKernel \<Rightarrow> string \<Rightarrow> string list" where
  "ns_ends k name =
     name # concat (map (\<lambda>(p, q). if p = name then [q] else if q = name then [p] else []) (veths k))"

definition nsLinkByName :: "string \<Rightarrow> nsKernel \<Rightarrow> (error + Link) \<times> nsKernel" where
  "nsLinkByName name k =
     (let (ok, k1) = ns_next k
      in if ok \<and> ns_here k1 name
         then (Inr (Device \<lparr>Index = 2, MTU = 1500, AttrName = name, MasterIndex = 0, NetNsID = 0\<rparr>), k1)
         else (Inl ''Link not found'', k1))"

definition nsLinkAdd :: "Link \<Rightarrow> nsKernel \<Rightarrow> (error + unit) \<times> nsKernel" where
  "nsLinkAdd link k =
     (let (ok, k1) = ns_next k
      in if \<not> ok then (Inl ''operation not permitted'', k1)
         else if \<exists>n \<in> set (linkNames link). ns_here k1 n then (Inl ''file exists'', k1)
         else (Inr (),
               k1\<lparr>nsLinks := nsLinks k1 @ map (\<lambda>n. (n, threadNs k1)) (linkNames link),
                   veths := veths k1 @ (case link of Veth attrs peerName \<Rightarrow> [(AttrName attrs, peerName)]
                                                   | _ \<Rightarrow> [])\<rparr>))"

definition nsLinkDel :: "Link \<Rightarrow> nsKernel \<Rightarrow> (error + unit) \<times> nsKernel" where
  "nsLinkDel link =
     ns_on_link ''device or resource busy'' link
       (\<lambda>k. Inr (k\<lparr>nsLinks := filter (\<lambda>l. fst l \<notin> set (ns_ends k (AttrName (Attrs link)))) (nsLinks k),
                    veths := filter (\<lambda>p. fst p \<noteq> AttrName (Attrs link) \<and> snd p \<noteq> AttrName (Attrs link))
                               (veths k)\<rparr>))"

definition nsLinkSetNsPid :: "Link \<Rightarrow> int \<Rightarrow> nsKernel \<Rightarrow> (error + unit) \<times> nsKernel" where
  "nsLinkSetNsPid link pid =
     ns_on_link ''operation not permitted'' link
       (\<lambda>k. case map_of (procNs k) pid of
               None \<Rightarrow> Inl ''no such process''
             | Some ns \<Rightarrow>
                 Inr (k\<lparr>nsLinks := map (\<lambda>l. if l = (AttrName (Attrs link), threadNs k)
                                             then (AttrName (Attrs link), ns) else l) (nsLinks k)\<rparr>))"

definition nsSys :: "nsKernel sys" where
  "nsSys =
     \<lparr>LinkByName = nsLinkByName,
      LinkAdd = nsLinkAdd,
      LinkSetUp = (\<lambda>link. ns_on_link ''operation not permitted'' link Inr),
      LinkDel = nsLinkDel,
      LinkSetNsPid = nsLinkSetNsPid,
      LinkSetMTU = (\<lambda>link mtu. ns_on_link ''invalid argument'' link Inr),
      netns_Get = ns_get ''bad file descriptor'' (\<lambda>k. Some (threadNs k)),
      netns_GetFromPid = (\<lambda>pid. ns_get ''no such process'' (\<lambda>k. map_of (procNs k) pid)),
      netns_Set = (\<lambda>ns k. let (ok, k1) = ns_next k
                           in if ok then (Inr (), k1\<lparr>threadNs := ns\<rparr>)
                              else (Inl ''operation not permitted'', k1)),
      NewClient = (\<lambda>k. (Inr (), k)),
      GetContainerIDByMountedDevice = (\<lambda>path k. (Inl ''container not found'', k)),
      GetPidByContainerID = (\<lambda>c k. (Inl ''pid not found'', k))\<rparr>"

definition nsWorld :: "bool list \<Rightarrow> nsKernel world" where
  "nsWorld outcomes =
     \<lparr>kernel = \<lparr>nsLinks = [(''br0'', 3)], veths = [], threadNs = 3, procNs = [(4242, 4)],
                faults = outcomes\<rparr>,
      trace = [], rt = exampleRuntime\<rparr>"


section \<open>Assignment Pipeline\<close>

subsection \<open>The package container/list\<close>

text \<open>
  \<^verbatim>\<open>container/list\<close> is not part of the repository. Its list is a ring of elements
  around a sentinel, the field \<^verbatim>\<open>root\<close> of the list; an element has the fields
  \<^verbatim>\<open>next\<close>, \<^verbatim>\<open>prev\<close>, \<^verbatim>\<open>list\<close> (the list it is in, or nil) and \<^verbatim>\<open>Value\<close>. The
  elements are in a store, \<open>heap\<close>, from addresses to elements, and \<open>fresh\<close> is the next
  unused address. A pointer to an element is nil, the address of the sentinel or the
  address of an element. \<^verbatim>\<open>attachPods\<close> has one list, so the field \<^verbatim>\<open>list\<close> of an
  element is \<open>elist\<close>: whether it points to that list. The \<^verbatim>\<open>Value\<close> of an element of
  that list is a pointer to an Assignment that nothing writes to after it is sent; the
  model keeps the Assignment itself.

  Reading or writing a field through nil or through an address with no element has no
  result (\<open>None\<close>): the Go program panics there.
\<close>

datatype ptr = NilPtr | Root | Elem nat

record list_Element =
  enext :: ptr
  eprev :: ptr
  elist :: bool
  Value :: Assignment

record list_List =
  root_next :: ptr
  root_prev :: ptr
  list_len :: int
  heap :: "nat \<rightharpoonup> list_Element"
  fresh :: nat

definition get_next :: "list_List \<Rightarrow> ptr \<Rightarrow> ptr option" where
  "get_next l p =
     (case p of NilPtr \<Rightarrow> None | Root \<Rightarrow> Some (root_next l) | Elem a \<Rightarrow> map_option enext (heap l a))"

definition get_prev :: "list_List \<Rightarrow> ptr \<Rightarrow> ptr option" where
  "get_prev l p =
     (case p of NilPtr \<Rightarrow> None | Root \<Rightarrow> Some (root_prev l) | Elem a \<Rightarrow> map_option eprev (heap l a))"

definition set_next :: "ptr \<Rightarrow> ptr \<Rightarrow> list_List \<Rightarrow> list_List option" where
  "set_next p v l =
     (case p of
        NilPtr \<Rightarrow> None
      | Root \<Rightarrow> Some (l\<lparr>root_next := v\<rparr>)
      | Elem a \<Rightarrow> map_option (\<lambda>e. l\<lparr>heap := (heap l)(a \<mapsto> e\<lparr>enext := v\<rparr>)\<rparr>) (heap l a))"

definition set_prev :: "ptr \<Rightarrow> ptr \<Rightarrow> list_List \<Rightarrow> list_List option" where
  "set_prev p v l =
     (case p of
        NilPtr \<Rightarrow> None
      | Root \<Rightarrow> Some (l\<lparr>root_prev := v\<rparr>)
      | Elem a \<Rightarrow> map_option (\<lambda>e. l\<lparr>heap := (heap l)(a \<mapsto> e\<lparr>eprev := v\<rparr>)\<rparr>) (heap l a))"

text \<open>The field \<^verbatim>\<open>list\<close> of the sentinel is never read, so writing it changes nothing.\<close>

definition set_list :: "ptr \<Rightarrow> bool \<Rightarrow> list_List \<Rightarrow> list_List option" where
  "set_list p v l =
     (case p of
        NilPtr \<Rightarrow> None
      | Root \<Rightarrow> Some l
      | Elem a \<Rightarrow> map_option (\<lambda>e. l\<lparr>heap := (heap l)(a \<mapsto> e\<lparr>elist := v\<rparr>)\<rparr>) (heap l a))"

text \<open>
  \<^verbatim>\<open>list.New()\<close>, \<^verbatim>\<open>l.lazyInit()\<close>, \<^verbatim>\<open>l.Front()\<close> and \<^verbatim>\<open>e.Next()\<close>. The last one is
  \<^verbatim>\<open>if p := e.next; e.list != nil && p != &e.list.root { return p }; return nil\<close>.
\<close>

definition list_New :: list_List where
  "list_New = \<lparr>root_next = Root, root_prev = Root, list_len = 0, heap = Map.empty, fresh = 0\<rparr>"

definition lazyInit :: "list_List \<Rightarrow> list_List" where
  "lazyInit l = (if root_next l = NilPtr then l\<lparr>root_next := Root, root_prev := Root, list_len := 0\<rparr> else l)"

definition Front :: "list_List \<Rightarrow> ptr" where
  "Front l = (if list_len l = 0 then NilPtr else root_next l)"

definition Next :: "list_List \<Rightarrow> ptr \<Rightarrow> ptr option" where
  "Next l e =
     (case e of
        NilPtr \<Rightarrow> None
      | Root \<Rightarrow> Some NilPtr
      | Elem a \<Rightarrow>
          map_option (\<lambda>el. if elist el \<and> enext el \<noteq> Root then enext el else NilPtr) (heap l a))"

text \<open>
  \<^verbatim>\<open>l.insert(e, at)\<close>, which is
  \<^verbatim>\<open>e.prev = at; e.next = at.next; e.prev.next = e; e.next.prev = e; e.list = l; l.len++\<close>,
  and \<^verbatim>\<open>l.PushBack(v)\<close>, which is \<^verbatim>\<open>l.lazyInit()\<close> and then
  \<^verbatim>\<open>l.insert(&Element{Value: v}, l.root.prev)\<close>.
\<close>

definition insert_elem :: "ptr \<Rightarrow> ptr \<Rightarrow> list_List \<Rightarrow> list_List option" where
  "insert_elem e at l =
     do {
       l1 \<leftarrow> set_prev e at l;
       n \<leftarrow> get_next l1 at;
       l2 \<leftarrow> set_next e n l1;
       p \<leftarrow> get_prev l2 e;
       l3 \<leftarrow> set_next p e l2;
       n' \<leftarrow> get_next l3 e;
       l4 \<leftarrow> set_prev n' e l3;
       l5 \<leftarrow> set_list e True l4;
       Some (l5\<lparr>list_len := list_len l5 + 1\<rparr>)
     }"

definition PushBack :: "Assignment \<Rightarrow> list_List \<Rightarrow> (ptr \<times> list_List) option" where
  "PushBack v l0 =
     (let l = lazyInit l0;
          e = Elem (fresh l);
          l1 = l\<lparr>heap := (heap l)(fresh l \<mapsto> \<lparr>enext = NilPtr, eprev = NilPtr, elist = False, Value = v\<rparr>),
                 fresh := fresh l + 1\<rparr>
      in map_option (Pair e) (insert_elem e (root_prev l1) l1))"

text \<open>
  \<^verbatim>\<open>l.remove(e)\<close>, which is
  \<^verbatim>\<open>e.prev.next = e.next; e.next.prev = e.prev; e.next = nil; e.prev = nil; e.list = nil; l.len--\<close>,
  and \<^verbatim>\<open>l.Remove(e)\<close>, which is \<^verbatim>\<open>if e.list == l { l.remove(e) }\<close>.
\<close>

definition remove_elem :: "ptr \<Rightarrow> list_List \<Rightarrow> list_List option" where
  "remove_elem e l =
     do {
       p \<leftarrow> get_prev l e;
       n \<leftarrow> get_next l e;
       l1 \<leftarrow> set_next p n l;
       n' \<leftarrow> get_next l1 e;
       p' \<leftarrow> get_prev l1 e;
       l2 \<leftarrow> set_prev n' p' l1;
       l3 \<leftarrow> set_next e NilPtr l2;
       l4 \<leftarrow> set_prev e NilPtr l3;
       l5 \<leftarrow> set_list e False l4;
       Some (l5\<lparr>list_len := list_len l5 - 1\<rparr>)
     }"

definition Remove :: "ptr \<Rightarrow> list_List \<Rightarrow> list_List option" where
  "Remove e l =
     (case e of
        NilPtr \<Rightarrow> None
      | Root \<Rightarrow> Some l
      | Elem a \<Rightarrow>
          (case heap l a of
             None \<Rightarrow> None
           | Some el \<Rightarrow> if elist el then remove_elem e l else Some l))"

subsection \<open>attachPods\<close>

text \<open>
  The state of \<^verbatim>\<open>attachPods\<close>: the list \<^verbatim>\<open>pendingAssignments\<close> and the world of the
  Attachment Engine, which holds the runtime with the clock and the channel. The field
  \<open>attachments\<close> is there for the properties, and no code reads it: one entry per call of
  \<^verbatim>\<open>attachPodToBridge\<close>, with the address of the list element the call was made for and
  the device ID and the pid it was given.
\<close>

record 'k pipeline =
  pendingAssignments :: list_List
  env :: "'k world"
  attachments :: "(nat \<times> string \<times> int) list"

definition nilDereference :: error where
  "nilDereference = ''runtime error: invalid memory address or nil pointer dereference''"

text \<open>
  The post statement \<^verbatim>\<open>a = a.Next()\<close> of the loop over the list, alone and after
  \<^verbatim>\<open>pendingAssignments.Remove(a)\<close>.
\<close>

definition advance :: "ptr \<Rightarrow> 'k pipeline \<Rightarrow> ptr exit \<times> 'k pipeline" where
  "advance a st =
     (case Next (pendingAssignments st) a of
        None \<Rightarrow> (Panic nilDereference, st)
      | Some a' \<Rightarrow> (Return a', st))"

definition remove_then_advance :: "ptr \<Rightarrow> 'k pipeline \<Rightarrow> ptr exit \<times> 'k pipeline" where
  "remove_then_advance a st =
     (case Remove a (pendingAssignments st) of
        None \<Rightarrow> (Panic nilDereference, st)
      | Some l \<Rightarrow> advance a (st\<lparr>pendingAssignments := l\<rparr>))"

text \<open>
  One turn of \<^verbatim>\<open>for a := pendingAssignments.Front(); a != nil; a = a.Next()\<close> (lines
  210 to 237) with the post statement: the result is the next value of \<^verbatim>\<open>a\<close>. A
  \<^verbatim>\<open>continue\<close> goes to the post statement. A panic of \<^verbatim>\<open>attachPodToBridge\<close> ends the
  goroutine, and with it the process.
\<close>

definition scan_body :: "'k sys \<Rightarrow> string \<Rightarrow> ptr \<Rightarrow> 'k pipeline \<Rightarrow> ptr exit \<times> 'k pipeline" where
  "scan_body sys bridge a st =
     (case a of
        Elem x \<Rightarrow>
          (case heap (pendingAssignments st) x of
             None \<Rightarrow> (Panic nilDereference, st)
           | Some el \<Rightarrow>
               (let assignment = Value el;
                    (now, r) = time_Now (rt (env st));
                    st1 = st\<lparr>env := (env st)\<lparr>rt := r\<rparr>\<rparr>
                in if now > Created assignment + assignmentTimeout
                   then remove_then_advance a st1
                   else
                     case call (OpGetContainerID (ContainerPath assignment)) GotID
                            (GetContainerIDByMountedDevice sys (ContainerPath assignment)) (env st1) of
                       (Inl err, w1) \<Rightarrow> advance a (st1\<lparr>env := w1\<rparr>)
                     | (Inr containerID, w1) \<Rightarrow>
                         (case call (OpGetPid containerID) GotPid
                                 (GetPidByContainerID sys containerID) w1 of
                            (Inl err, w2) \<Rightarrow> advance a (st1\<lparr>env := w2\<rparr>)
                          | (Inr containerPid, w2) \<Rightarrow>
                              (let st2 = st1\<lparr>attachments :=
                                              attachments st1 @ [(x, DeviceID assignment, containerPid)]\<rparr>
                               in case attachPodToBridge sys bridge (DeviceID assignment) containerPid w2 of
                                    (Panic e, w3) \<Rightarrow> (Panic e, st2\<lparr>env := w3\<rparr>)
                                  | (Return err, w3) \<Rightarrow> remove_then_advance a (st2\<lparr>env := w3\<rparr>)))))
      | _ \<Rightarrow> (Panic nilDereference, st))"

text \<open>
  The loop over the list from the value \<open>a\<close> of its variable on. It has no result when it
  does not end.
\<close>

partial_function (option) attachPods_scan ::
  "'k sys \<Rightarrow> string \<Rightarrow> ptr \<Rightarrow> 'k pipeline \<Rightarrow> (unit exit \<times> 'k pipeline) option" where
  "attachPods_scan sys bridge a st =
     (if a = NilPtr then Some (Return (), st)
      else case scan_body sys bridge a st of
             (Panic e, st') \<Rightarrow> Some (Panic e, st')
           | (Return a', st') \<Rightarrow> attachPods_scan sys bridge a' st')"

text \<open>
  One turn of the outer \<^verbatim>\<open>for\<close>: the \<^verbatim>\<open>select\<close>, then the loop over the list. \<open>sent\<close>
  are the Assignments that \<^verbatim>\<open>Allocate\<close> has sent since the turn before. The \<^verbatim>\<open>select\<close>
  takes the oldest Assignment of the channel and appends it to the list, or sleeps when
  the channel is empty.
\<close>

definition attachPods_round ::
  "'k sys \<Rightarrow> string \<Rightarrow> Assignment list \<Rightarrow> 'k pipeline \<Rightarrow> (unit exit \<times> 'k pipeline) option" where
  "attachPods_round sys bridge sent st =
     (let r = rt (env st);
          ch = assignmentCh r @ sent
      in case ch of
           [] \<Rightarrow> attachPods_scan sys bridge (Front (pendingAssignments st)) st
         | assignment # waiting \<Rightarrow>
             (let st1 = st\<lparr>env := (env st)\<lparr>rt := r\<lparr>assignmentCh := waiting\<rparr>\<rparr>\<rparr>
              in case PushBack assignment (pendingAssignments st1) of
                   None \<Rightarrow> Some (Panic nilDereference, st1)
                 | Some (e, l) \<Rightarrow>
                     attachPods_scan sys bridge (Front l) (st1\<lparr>pendingAssignments := l\<rparr>)))"

text \<open>
  \<^verbatim>\<open>attachPods\<close> never returns. The model runs the turns of its outer loop that a list
  says, one entry per turn with the Assignments sent before that turn, and stops at a
  panic.
\<close>

fun attachPods_rounds ::
  "'k sys \<Rightarrow> string \<Rightarrow> Assignment list list \<Rightarrow> 'k pipeline \<Rightarrow> (unit exit \<times> 'k pipeline) option" where
  "attachPods_rounds sys bridge [] st = Some (Return (), st)"
| "attachPods_rounds sys bridge (sent # later) st =
     (case attachPods_round sys bridge sent st of
        None \<Rightarrow> None
      | Some (Panic e, st') \<Rightarrow> Some (Panic e, st')
      | Some (Return u, st') \<Rightarrow> attachPods_rounds sys bridge later st')"

definition attachPods ::
  "'k sys \<Rightarrow> string \<Rightarrow> Assignment list list \<Rightarrow> 'k world \<Rightarrow> (unit exit \<times> 'k pipeline) option" where
  "attachPods sys bridge rounds w =
     (let pending = list_New
      in case call OpNewClient (\<lambda>_. Done) (NewClient sys) w of
           (Inl err, w1) \<Rightarrow>
             Some (Panic err, \<lparr>pendingAssignments = pending, env = w1, attachments = []\<rparr>)
         | (Inr cli, w1) \<Rightarrow>
             attachPods_rounds sys bridge rounds
               \<lparr>pendingAssignments = pending, env = w1, attachments = []\<rparr>)"

subsection \<open>The entries of the list, and example states\<close>

text \<open>
  \<open>elements\<close> reads the list as a reader of \<^verbatim>\<open>container/list\<close> does: \<^verbatim>\<open>l.Len()\<close>
  steps along \<^verbatim>\<open>next\<close> from the front; \<open>pending\<close> are the Assignments of these
  elements. In the example list the Assignment \<open>A\<close>, created at the time 0, is in front of
  the Assignment \<open>B\<close>, created one second later (the clock counts nanoseconds). The
  example state has that list and a kernel in which the bridge exists, the clock shows
  \<open>now\<close>, and the container runtime knows the mounts \<open>ms\<close> and the pids \<open>ps\<close>.
\<close>

fun walk :: "(nat \<rightharpoonup> list_Element) \<Rightarrow> nat \<Rightarrow> ptr \<Rightarrow> nat list" where
  "walk h 0 p = []"
| "walk h (Suc n) p =
     (case p of
        Elem a \<Rightarrow> (case h a of Some e \<Rightarrow> a # walk h n (enext e) | None \<Rightarrow> [])
      | _ \<Rightarrow> [])"

definition elements :: "list_List \<Rightarrow> nat list" where
  "elements l = walk (heap l) (nat (list_len l)) (root_next l)"

definition pending :: "'k pipeline \<Rightarrow> Assignment list" where
  "pending st =
     List.map_filter (\<lambda>a. map_option Value (heap (pendingAssignments st) a))
       (elements (pendingAssignments st))"

definition assignmentA :: Assignment where
  "assignmentA = \<lparr>DeviceID = ''br0-00'', ContainerPath = ''/tmp/device-plugin-network-bridge/br0/br0-00'',
                   Created = 0\<rparr>"

definition assignmentB :: Assignment where
  "assignmentB = \<lparr>DeviceID = ''br0-01'', ContainerPath = ''/tmp/device-plugin-network-bridge/br0/br0-01'',
                   Created = 1000000000\<rparr>"

definition pendingAB :: list_List where
  "pendingAB = snd (the (PushBack assignmentB (snd (the (PushBack assignmentA list_New)))))"

definition pendingB :: list_List where
  "pendingB =
     \<lparr>root_next = Elem 1, root_prev = Elem 1, list_len = 1,
      heap = [0 \<mapsto> \<lparr>enext = NilPtr, eprev = NilPtr, elist = False, Value = assignmentA\<rparr>,
              1 \<mapsto> \<lparr>enext = Root, eprev = Root, elist = True, Value = assignmentB\<rparr>],
      fresh = 2\<rparr>"

definition laterWorld :: "int \<Rightarrow> (string \<times> string) list \<Rightarrow> (string \<times> int) list \<Rightarrow> simKernel world" where
  "laterWorld now ms ps =
     \<lparr>kernel = \<lparr>links = [''br0''], script = [], mounts = ms, pids = ps\<rparr>,
      trace = [],
      rt = \<lparr>timeSrc = (\<lambda>k. now + int k), timeCalls = 0, randSrc = (\<lambda>k. k mod 8), randCalls = 0,
            assignmentCh = []\<rparr>\<rparr>"

definition stateAB :: "int \<Rightarrow> (string \<times> string) list \<Rightarrow> (string \<times> int) list \<Rightarrow> simKernel pipeline" where
  "stateAB now ms ps = \<lparr>pendingAssignments = pendingAB, env = laterWorld now ms ps, attachments = []\<rparr>"

section \<open>Properties of the Device Advertiser\<close>

lemma sprintf_02d_two_digits:
  "i < 100 \<Longrightarrow> sprintf_02d i = [''0123456789'' ! (i div 10), ''0123456789'' ! (i mod 10)]"
proof (cases "i < 10")
  case True
  then show ?thesis
    by (simp add: sprintf_02d_def decimal.simps [of i] digitChar_def)
next
  case False
  assume "i < 100"
  with False have "i div 10 < 10" by simp
  with False show ?thesis
    by (simp add: sprintf_02d_def decimal.simps [of i] decimal.simps [of "i div 10"] digitChar_def)
qed

lemma generateBridgeDevices_loop_eq:
  "i \<le> nicsPoolSize \<Longrightarrow>
   generateBridgeDevices_loop bridge i acc =
     acc @ map (\<lambda>k. \<lparr>ID = bridge @ ''-'' @ sprintf_02d k, Health = Healthy\<rparr>) [i..<nicsPoolSize]"
proof (induction bridge i acc rule: generateBridgeDevices_loop.induct)
  case (1 bridge i bridgeDevs)
  show ?case
  proof (cases "i < nicsPoolSize")
    case True
    then have "[i..<nicsPoolSize] = i # [i + 1..<nicsPoolSize]"
      by (simp add: upt_conv_Cons)
    with True "1.IH" show ?thesis
      by (simp add: generateBridgeDevices_loop.simps [of bridge i])
  next
    case False
    then show ?thesis
      by (simp add: generateBridgeDevices_loop.simps [of bridge i])
  qed
qed

lemma generateBridgeDevices_pool:
  "generateBridgeDevices bridge = map (poolDevice bridge) [0..<100]"
proof -
  have "generateBridgeDevices bridge =
          map (\<lambda>k. \<lparr>ID = bridge @ ''-'' @ sprintf_02d k, Health = Healthy\<rparr>) [0..<100]"
    by (simp add: generateBridgeDevices_def generateBridgeDevices_loop_eq nicsPoolSize_def)
  also have "\<dots> = map (poolDevice bridge) [0..<100]"
    by (rule map_cong) (simp_all add: poolDevice_def sprintf_02d_two_digits Healthy_def)
  finally show ?thesis .
qed

lemma emitResponse_payload:
  "emitResponse (generateBridgeDevices bridge) [] present sent = sent @ [payload bridge present]"
  by (simp add: emitResponse_def payload_def generateBridgeDevices_pool)

lemma remdups_adj_snoc:
  "xs \<noteq> [] \<Longrightarrow> remdups_adj (xs @ [d]) = remdups_adj xs @ (if d = last xs then [] else [d])"
  by (induction xs rule: remdups_adj.induct) auto

lemma ListAndWatch_loop_snoc:
  "ListAndWatch_loop bd nbd did (rounds @ [does]) sent =
     (let sent' = ListAndWatch_loop bd nbd did rounds sent
      in if last (did # rounds) \<noteq> does then emitResponse bd nbd does sent' else sent')"
  by (induction rounds arbitrary: did sent) (simp_all add: Let_def)

text \<open>
  C6. The first message of \<^verbatim>\<open>ListAndWatch\<close> is the payload of the bridge's existence
  at the start of the stream. Each further round of the loop sends exactly one message,
  the payload of the new state, when the observed existence differs from the one observed
  just before, and sends nothing otherwise. The payload of the present state is the pool
  of 100 healthy devices with IDs \<^verbatim>\<open><bridge>-00\<close> to \<^verbatim>\<open><bridge>-99\<close>; the payload of
  the absent state is the empty device list.
\<close>

theorem ListAndWatch_one_message_per_transition:
  "ListAndWatch bridge atStart [] = [payload bridge atStart]
   \<and> ListAndWatch bridge atStart (rounds @ [doesBridgeExist]) =
       ListAndWatch bridge atStart rounds
         @ (if doesBridgeExist = last (atStart # rounds) then [] else [payload bridge doesBridgeExist])
   \<and> ListAndWatch bridge atStart rounds = map (payload bridge) (remdups_adj (atStart # rounds))
   \<and> Devices (payload bridge True) =
       map (\<lambda>i. \<lparr>ID = bridge @ ''-'' @ [''0123456789'' ! (i div 10), ''0123456789'' ! (i mod 10)],
                 Health = ''Healthy''\<rparr>) [0..<100]
   \<and> length (Devices (payload bridge True)) = 100
   \<and> Devices (payload bridge False) = []"
proof -
  have first: "ListAndWatch bridge atStart [] = [payload bridge atStart]"
    by (simp add: ListAndWatch_def emitResponse_payload)
  have step: "ListAndWatch bridge atStart (rs @ [d]) =
       ListAndWatch bridge atStart rs
         @ (if d = last (atStart # rs) then [] else [payload bridge d])" for rs d
    unfolding ListAndWatch_def Let_def ListAndWatch_loop_snoc emitResponse_payload
    by auto
  have all: "ListAndWatch bridge atStart rounds = map (payload bridge) (remdups_adj (atStart # rounds))"
  proof (induction rounds rule: rev_induct)
    case Nil
    then show ?case by (simp add: first)
  next
    case (snoc d rs)
    have "remdups_adj ((atStart # rs) @ [d]) =
            remdups_adj (atStart # rs) @ (if d = last (atStart # rs) then [] else [d])"
      by (rule remdups_adj_snoc) simp
    then have "remdups_adj (atStart # rs @ [d]) =
            remdups_adj (atStart # rs) @ (if d = last (atStart # rs) then [] else [d])"
      by simp
    then show ?case
      using snoc.IH by (simp only: step map_append) simp
  qed
  have pool: "Devices (payload bridge True) =
       map (\<lambda>i. \<lparr>ID = bridge @ ''-'' @ [''0123456789'' ! (i div 10), ''0123456789'' ! (i mod 10)],
                 Health = ''Healthy''\<rparr>) [0..<100]"
    by (simp add: payload_def poolDevice_def del: upt_Suc)
  have len: "length (Devices (payload bridge True)) = 100"
    by (simp add: payload_def)
  have none: "Devices (payload bridge False) = []"
    by (simp add: payload_def)
  from first step all pool len none show ?thesis by blast
qed

section \<open>Properties of the Allocator\<close>

lemma randString_loop_eq:
  "i \<le> length b \<Longrightarrow>
   randString_loop i b s =
     (take i b @ map (\<lambda>k. letterBytes ! (randSrc s (randCalls s + k) mod length letterBytes)) [0..<length b - i],
      s\<lparr>randCalls := randCalls s + (length b - i)\<rparr>)"
proof (induction i b s rule: randString_loop.induct)
  case (1 i b s)
  show ?case
  proof (cases "i < length b")
    case True
    let ?c = "letterBytes ! (randSrc s (randCalls s) mod length letterBytes)"
    have upd: "take (Suc i) (b[i := ?c]) = take i b @ [?c]"
      using True by (simp add: take_Suc_conv_app_nth)
    have idx: "[0..<length b - i] = 0 # map Suc [0..<length b - (i + 1)]"
      using True by (simp add: upt_conv_Cons map_Suc_upt Suc_diff_Suc del: upt_Suc)
    have "randString_loop i b s =
            randString_loop (i + 1) (b[i := ?c]) (s\<lparr>randCalls := randCalls s + 1\<rparr>)"
      using True by (simp add: randString_loop.simps [of i b s] rand_Intn_def)
    also have "\<dots> = (take (i + 1) (b[i := ?c])
                   @ map (\<lambda>k. letterBytes ! (randSrc s (randCalls s + 1 + k) mod length letterBytes))
                       [0..<length b - (i + 1)],
                 s\<lparr>randCalls := randCalls s + 1 + (length b - (i + 1))\<rparr>)"
      using True "1.IH" [of "(randSrc s (randCalls s) mod length letterBytes, s\<lparr>randCalls := randCalls s + 1\<rparr>)" "randSrc s (randCalls s) mod length letterBytes" "s\<lparr>randCalls := randCalls s + 1\<rparr>"]
      by (simp add: rand_Intn_def)
    finally show ?thesis
      using True by (simp add: upd idx comp_def Suc_diff_Suc del: upt_Suc)
  next
    case False
    with "1.prems" show ?thesis
      by (subst randString_loop.simps) simp
  qed
qed

lemma randString_eq:
  "randString len s =
     (map (\<lambda>k. letterBytes ! (randSrc s (randCalls s + k) mod 36)) [0..<len],
      s\<lparr>randCalls := randCalls s + len\<rparr>)"
  by (simp add: randString_def randString_loop_eq letterBytes_def)

lemma Allocate_devices_eq:
  "Allocate_devices bridge nics devices vnics s =
     (devices @ map (\<lambda>nic. \<lparr>SpecContainerPath = getAssignmentPath bridge nic,
                                HostPath = fakeDevicePath, Permissions = ''r''\<rparr>) nics,
      vnics @ map (\<lambda>nic. \<lparr>vnicName = nic, vnicProtocol = protocolEthernet\<rparr>) nics,
      s\<lparr>timeCalls := timeCalls s + length nics,
        assignmentCh := assignmentCh s @ newAssignments bridge nics s\<rparr>)"
proof (induction nics arbitrary: devices vnics s)
  case Nil
  then show ?case by (simp add: newAssignments_def)
next
  case (Cons nic nics)
  have idx: "[timeCalls s..<Suc (timeCalls s + length nics)]
               = timeCalls s # [Suc (timeCalls s)..<Suc (timeCalls s + length nics)]"
    by (simp add: upt_conv_Cons del: upt_Suc)
  show ?case
    by (simp add: Cons.IH idx time_Now_def send_def newAssignments_def Let_def del: upt_Suc)
qed

lemma newAssignments_append:
  "newAssignments bridge (xs @ ys) s =
     newAssignments bridge xs s
       @ newAssignments bridge ys (s\<lparr>timeCalls := timeCalls s + length xs\<rparr>)"
proof -
  have "[timeCalls s..<timeCalls s + length (xs @ ys)] =
          [timeCalls s..<timeCalls s + length xs]
            @ [timeCalls s + length xs..<timeCalls s + length xs + length ys]"
    using upt_add_eq_append [of "timeCalls s" "timeCalls s + length xs" "length ys"]
    by (simp add: add.assoc)
  then show ?thesis
    by (simp add: newAssignments_def del: upt_Suc)
qed

lemma newAssignments_cong:
  "timeSrc s' = timeSrc s \<Longrightarrow> timeCalls s' = timeCalls s \<Longrightarrow>
   newAssignments bridge xs s' = newAssignments bridge xs s"
  by (simp add: newAssignments_def)

lemma Allocate_requests_eq:
  "Allocate_requests marshal ns bridge reqs response s =
     (response\<lparr>ContainerResponses :=
        ContainerResponses response @ responsesFrom marshal ns bridge (randSrc s) (randCalls s) reqs\<rparr>,
      s\<lparr>timeCalls := timeCalls s + length (concat (map DevicesIDs reqs)),
        randCalls := randCalls s + 8 * length reqs,
        assignmentCh := assignmentCh s @ newAssignments bridge (concat (map DevicesIDs reqs)) s\<rparr>)"
proof (induction reqs arbitrary: response s)
  case Nil
  then show ?case by (simp add: newAssignments_def)
next
  case (Cons req reqs)
  let ?s1 = "s\<lparr>timeCalls := timeCalls s + length (DevicesIDs req),
               assignmentCh := assignmentCh s @ newAssignments bridge (DevicesIDs req) s\<rparr>"
  let ?s2 = "?s1\<lparr>randCalls := randCalls s + 8\<rparr>"
  have na: "newAssignments bridge (concat (map DevicesIDs reqs)) ?s2 =
            newAssignments bridge (concat (map DevicesIDs reqs))
              (s\<lparr>timeCalls := timeCalls s + length (DevicesIDs req)\<rparr>)"
    by (rule newAssignments_cong) simp_all
  have body: "Allocate_requests marshal ns bridge (req # reqs) response s =
     Allocate_requests marshal ns bridge reqs
       (response\<lparr>ContainerResponses := ContainerResponses response @ responsesFrom marshal ns bridge (randSrc s) (randCalls s) [req]\<rparr>) ?s2"
    by (cases "marshal (descriptorOf ns bridge req)")
       (simp_all add: Allocate_devices_eq randString_eq envVarNameSuffixLen_def
          descriptorOf_def deviceSpecsOf_def envVarNameAt_def del: upt_Suc)
  show ?case
    unfolding body Cons.IH
    by (simp add: newAssignments_append na del: upt_Suc)
qed

lemma responseAt_Suc:
  "responseAt marshal ns bridge src c (req # reqs) (Suc k) =
     responseAt marshal ns bridge src (c + 8) reqs k"
proof -
  have "c + 8 * Suc k = c + 8 + 8 * k" by simp
  then show ?thesis by (simp only: responseAt_def nth_Cons_Suc)
qed

lemma responsesFrom_eq:
  "responsesFrom marshal ns bridge src c reqs =
     map (responseAt marshal ns bridge src c reqs)
       (filter (\<lambda>k. \<not> isl (marshal (descriptorOf ns bridge (reqs ! k)))) [0..<length reqs])"
proof (induction reqs arbitrary: c)
  case Nil
  then show ?case by simp
next
  case (Cons req reqs)
  have idx: "[0..<length (req # reqs)] = 0 # map Suc [0..<length reqs]"
    by (simp add: upt_conv_Cons map_Suc_upt del: upt_Suc)
  have tl: "map (responseAt marshal ns bridge src c (req # reqs))
              (filter (\<lambda>k. \<not> isl (marshal (descriptorOf ns bridge ((req # reqs) ! k))))
                 (map Suc [0..<length reqs]))
            = responsesFrom marshal ns bridge src (c + 8) reqs"
    by (simp add: Cons.IH filter_map o_def responseAt_Suc)
  show ?case
  proof (cases "marshal (descriptorOf ns bridge req)")
    case (Inl err)
    then show ?thesis
      unfolding idx by (simp add: tl)
  next
    case (Inr m)
    then have "responseAt marshal ns bridge src c (req # reqs) 0 =
                \<lparr>Envs = Map.empty(envVarNameAt src c \<mapsto> m), DeviceSpecs = deviceSpecsOf bridge req\<rparr>"
      by (simp add: responseAt_def)
    with Inr show ?thesis
      unfolding idx by (simp add: tl)
  qed
qed

lemma responsesFrom_DeviceSpecs:
  "map DeviceSpecs (responsesFrom marshal ns bridge src c reqs) =
     map (deviceSpecsOf bridge)
       (filter (\<lambda>req. \<not> isl (marshal (descriptorOf ns bridge req))) reqs)"
  by (induction reqs arbitrary: c) (auto split: sum.splits)

lemma length_newAssignments: "length (newAssignments bridge nics s) = length nics"
  by (simp add: newAssignments_def)

lemma upper_letterBytes:
  "map toUpperByte letterBytes = ''ABCDEFGHIJKLMNOPQRSTUVWXYZ0123456789''"
  unfolding letterBytes_def by code_simp

lemma toUpperByte_letter:
  assumes "i < 36"
  shows "toUpperByte (letterBytes ! i) = ''ABCDEFGHIJKLMNOPQRSTUVWXYZ0123456789'' ! i"
proof -
  have "i < length letterBytes" using assms by (simp add: letterBytes_def)
  then have "map toUpperByte letterBytes ! i = toUpperByte (letterBytes ! i)"
    by (rule nth_map)
  then show ?thesis by (simp only: upper_letterBytes)
qed

lemma envVarNameAt_eq:
  "envVarNameAt src c =
     ''NETWORK_INTERFACE_RESOURCES_''
       @ map (\<lambda>j. ''ABCDEFGHIJKLMNOPQRSTUVWXYZ0123456789'' ! (src (c + j) mod 36)) [0..<8]"
  by (simp add: envVarNameAt_def envVarNamePrefix_def ToUpper_def toUpperByte_letter del: upt_Suc)

lemma Allocate_eq:
  "Allocate marshal ns bridge r s =
     (Inr \<lparr>ContainerResponses = responsesFrom marshal ns bridge (randSrc s) (randCalls s) (ContainerRequests r)\<rparr>,
      s\<lparr>timeCalls := timeCalls s + length (concat (map DevicesIDs (ContainerRequests r))),
        randCalls := randCalls s + 8 * length (ContainerRequests r),
        assignmentCh := assignmentCh s
          @ newAssignments bridge (concat (map DevicesIDs (ContainerRequests r))) s\<rparr>)"
  by (simp add: Allocate_def Allocate_requests_eq)

text \<open>
  C7. \<^verbatim>\<open>Allocate\<close> returns a response and no error. The responses are those of the
  requests whose descriptor was marshalled, in request order, one each; a request whose
  marshalling fails is the only kind left out. The channel gains one Assignment per
  requested device ID, after what it held.
\<close>

theorem Allocate_one_response_per_request:
  "\<exists>response s' new.
     Allocate marshal ns bridge r s = (Inr response, s')
     \<and> map DeviceSpecs (ContainerResponses response) =
         map (deviceSpecsOf bridge)
           (filter (\<lambda>req. \<not> isl (marshal (descriptorOf ns bridge req))) (ContainerRequests r))
     \<and> length (ContainerResponses response) =
         length (filter (\<lambda>req. \<not> isl (marshal (descriptorOf ns bridge req))) (ContainerRequests r))
     \<and> assignmentCh s' = assignmentCh s @ new
     \<and> length new = sum_list (map (\<lambda>req. length (DevicesIDs req)) (ContainerRequests r))"
proof -
  let ?reqs = "ContainerRequests r"
  let ?resp = "responsesFrom marshal ns bridge (randSrc s) (randCalls s) ?reqs"
  let ?new = "newAssignments bridge (concat (map DevicesIDs ?reqs)) s"
  have specs: "map DeviceSpecs ?resp =
         map (deviceSpecsOf bridge)
           (filter (\<lambda>req. \<not> isl (marshal (descriptorOf ns bridge req))) ?reqs)"
    by (rule responsesFrom_DeviceSpecs)
  have "length (map DeviceSpecs ?resp) =
          length (filter (\<lambda>req. \<not> isl (marshal (descriptorOf ns bridge req))) ?reqs)"
    by (simp only: specs length_map)
  then have len: "length ?resp =
          length (filter (\<lambda>req. \<not> isl (marshal (descriptorOf ns bridge req))) ?reqs)"
    by simp
  have count: "length ?new = sum_list (map (\<lambda>req. length (DevicesIDs req)) ?reqs)"
    by (simp add: length_newAssignments length_concat o_def)
  show ?thesis
    unfolding Allocate_eq using specs len count by auto
qed


lemma json_string_Ethernet: \<open>json_string escape ''Ethernet'' = ''"Ethernet"''\<close>
  by (simp add: json_string_def htmlSafe_def)

lemma json_vnic_Ethernet:
  \<open>json_vnic escape \<lparr>vnicName = d, vnicProtocol = protocolEthernet\<rparr> =
     ''{"name":'' @ json_string escape d @ '',"protocol":"Ethernet"}''\<close>
  by (simp add: json_vnic_def protocolEthernet_def json_string_Ethernet)

lemma json_Marshal_descriptorOf:
  \<open>json_Marshal escape (descriptorOf ns bridge req) =
     Inr (''{"name":'' @ json_string escape (ns @ ''/'' @ bridge) @ '',"interfaces":''
          @ (if DevicesIDs req = [] then ''null''
             else ''['' @ json_join (map (\<lambda>d. ''{"name":'' @ json_string escape d
                                              @ '',"protocol":"Ethernet"}'') (DevicesIDs req)) @ '']'')
          @ ''}'')\<close>
  by (simp add: json_Marshal_def descriptorOf_def o_def json_vnic_Ethernet)

lemma json_escape_safe: "list_all htmlSafe s \<Longrightarrow> json_escape s = s"
  by (induction s) (auto simp: json_escape.simps htmlSafe_def Let_def)

lemma json_join_eq:
  "xs \<noteq> [] \<Longrightarrow> json_join xs = concat (map (\<lambda>x. x @ '','') (butlast xs)) @ last xs"
  by (induction xs rule: json_join.induct) simp_all

lemma json_join_map:
  "ds \<noteq> [] \<Longrightarrow>
   json_join (map f ds) = concat (map (\<lambda>d. f d @ '','') (butlast ds)) @ f (last ds)"
  by (simp add: json_join_eq map_butlast [symmetric] last_map o_def)

text \<open>
  C9, as amended. With the marshaller of the Go library every request has its response.
  For request \<open>k\<close> the device specs are, per requested device ID \<open>d\<close> in order, the
  sentinel host path, the container path \<^verbatim>\<open>/tmp/device-plugin-network-bridge/<bridge>/<d>\<close>
  and the permission \<^verbatim>\<open>r\<close>. The value of its environment variable is the text of the
  JSON object with the name \<^verbatim>\<open><namespace>/<bridge>\<close> and, under \<^verbatim>\<open>interfaces\<close>, the
  array of one pair of the name \<open>d\<close> and the protocol \<^verbatim>\<open>Ethernet\<close> per requested device
  ID, in the order of the request: each pair but the last followed by a comma, then the
  last pair (for a request with no device ID the library writes \<^verbatim>\<open>null\<close> for the nil
  slice). The two names are written as \<^verbatim>\<open>encoding/json\<close> writes a string, and that is
  the string itself between double quotes when all its bytes are in the library's safe
  set.
\<close>

theorem Allocate_device_specs_and_descriptor:
  assumes run: \<open>Allocate (json_Marshal json_escape) ns bridge r s = (Inr response, s')\<close>
    and k: \<open>k < length (ContainerRequests r)\<close>
  shows \<open>length (ContainerResponses response) = length (ContainerRequests r)
     \<and> DeviceSpecs (ContainerResponses response ! k) =
         map (\<lambda>d. \<lparr>SpecContainerPath = ''/tmp/device-plugin-network-bridge/'' @ bridge @ ''/'' @ d,
                   HostPath = ''/var/run/device-plugin-network-bridge-fakedev'',
                   Permissions = ''r''\<rparr>)
           (DevicesIDs (ContainerRequests r ! k))
     \<and> ran (Envs (ContainerResponses response ! k)) =
         {''{"name":'' @ json_string json_escape (ns @ ''/'' @ bridge) @ '',"interfaces":''
            @ (if DevicesIDs (ContainerRequests r ! k) = [] then ''null''
               else ''[''
                 @ concat (map (\<lambda>d. ''{"name":'' @ json_string json_escape d
                                       @ '',"protocol":"Ethernet"},'')
                             (butlast (DevicesIDs (ContainerRequests r ! k))))
                 @ ''{"name":'' @ json_string json_escape (last (DevicesIDs (ContainerRequests r ! k)))
                 @ '',"protocol":"Ethernet"}]'')
            @ ''}''}
     \<and> (\<forall>t. list_all htmlSafe t \<longrightarrow> json_string json_escape t = ''"'' @ t @ ''"'')\<close>
proof -
  let ?reqs = "ContainerRequests r"
  let ?ds = "DevicesIDs (?reqs ! k)"
  let ?pair = \<open>\<lambda>d. ''{"name":'' @ json_string json_escape d @ '',"protocol":"Ethernet"}''\<close>
  have ok: "filter (\<lambda>k. \<not> isl (json_Marshal json_escape (descriptorOf ns bridge (?reqs ! k)))) [0..<length ?reqs]
              = [0..<length ?reqs]"
    by (simp add: json_Marshal_def)
  from run have resp: "ContainerResponses response =
      map (responseAt (json_Marshal json_escape) ns bridge (randSrc s) (randCalls s) ?reqs) [0..<length ?reqs]"
    unfolding Allocate_eq responsesFrom_eq ok by auto
  have len: "length (ContainerResponses response) = length ?reqs"
    by (simp add: resp)
  have at: "ContainerResponses response ! k =
              responseAt (json_Marshal json_escape) ns bridge (randSrc s) (randCalls s) ?reqs k"
    using k by (simp add: resp)
  have specs: "DeviceSpecs (ContainerResponses response ! k) =
         map (\<lambda>d. \<lparr>SpecContainerPath = ''/tmp/device-plugin-network-bridge/'' @ bridge @ ''/'' @ d,
                   HostPath = ''/var/run/device-plugin-network-bridge-fakedev'',
                   Permissions = ''r''\<rparr>)
           ?ds"
    by (simp add: at responseAt_def deviceSpecsOf_def getAssignmentPath_def fakeDevicePath_def)
  have env: \<open>ran (Envs (ContainerResponses response ! k)) =
         {''{"name":'' @ json_string json_escape (ns @ ''/'' @ bridge) @ '',"interfaces":''
            @ (if ?ds = [] then ''null''
               else ''[''
                 @ concat (map (\<lambda>d. ''{"name":'' @ json_string json_escape d
                                       @ '',"protocol":"Ethernet"},'')
                             (butlast ?ds))
                 @ ''{"name":'' @ json_string json_escape (last ?ds)
                 @ '',"protocol":"Ethernet"}]'')
            @ ''}''}\<close>
  proof (cases "?ds = []")
    case True
    then show ?thesis
      by (simp only: at responseAt_def json_Marshal_descriptorOf) simp
  next
    case False
    then have \<open>json_join (map ?pair ?ds) =
                concat (map (\<lambda>d. ?pair d @ '','') (butlast ?ds)) @ ?pair (last ?ds)\<close>
      by (rule json_join_map)
    with False show ?thesis
      by (simp only: at responseAt_def json_Marshal_descriptorOf) simp
  qed
  have quote: \<open>\<forall>t. list_all htmlSafe t \<longrightarrow> json_string json_escape t = ''"'' @ t @ ''"''\<close>
    by (simp add: json_string_def)
  from len specs env quote show ?thesis by blast
qed

lemma upt8: "[0..<8] = [0, 1, 2, 3, 4, 5, 6, 7]"
  by code_simp

lemma exampleName0: "envVarNameAt (\<lambda>k. k mod 8) 0 = ''NETWORK_INTERFACE_RESOURCES_ABCDEFGH''"
  by (simp add: envVarNameAt_eq upt8)

lemma exampleName8: "envVarNameAt (\<lambda>k. k mod 8) 8 = ''NETWORK_INTERFACE_RESOURCES_ABCDEFGH''"
  by (simp add: envVarNameAt_eq upt8)

lemma example_run_escaped:
  "Allocate (json_Marshal json_escape) ''example.org'' ''br0'' exampleRequest exampleRuntime =
     (Inr exampleResponse, exampleRuntimeAfter)"
  by (simp add: Allocate_eq exampleRequest_def exampleRuntime_def exampleName0 exampleName8
        exampleResponse_def exampleRuntimeAfter_def
        json_Marshal_descriptorOf deviceSpecsOf_def getAssignmentPath_def fakeDevicePath_def
        newAssignments_def json_string_def htmlSafe_def upt_rec_numeral)

lemma ampersand_escaped:
  "json_escape ''example.org/br&0'' = ''example.org/br'' @ [CHR 0x5C] @ ''u00260''"
  "json_escape ''br&0-07'' = ''br'' @ [CHR 0x5C] @ ''u00260-07''"
  by (simp_all add: json_escape.simps htmlSafe_def escapeByte_def hex_def)

text \<open>
  C9, as stated, fails. For the device \<^verbatim>\<open>br&0-07\<close> of a bridge named \<^verbatim>\<open>br&0\<close> the
  library writes the \<^verbatim>\<open>&\<close> of both names as a backslash and \<^verbatim>\<open>u0026\<close>, so the value
  is not the text with the pair of the name \<^verbatim>\<open>"br&0-07"\<close> that the claim gives.
\<close>

theorem Allocate_descriptor_escapes_device_id:
  \<open>ran (Envs (ContainerResponses
          (projr (fst (Allocate (json_Marshal json_escape) ''example.org'' ''br&0''
                         ampersandRequest exampleRuntime))) ! 0))
     = {''{"name":"example.org/br'' @ [CHR 0x5C] @ ''u00260","interfaces":[{"name":"br''
          @ [CHR 0x5C] @ ''u00260-07","protocol":"Ethernet"}]}''}
   \<and> ''{"name":"example.org/br'' @ [CHR 0x5C] @ ''u00260","interfaces":[{"name":"br''
          @ [CHR 0x5C] @ ''u00260-07","protocol":"Ethernet"}]}''
       \<noteq> ''{"name":"example.org/br&0","interfaces":[{"name":"br&0-07","protocol":"Ethernet"}]}''\<close>
  by (simp add: Allocate_eq ampersandRequest_def exampleRuntime_def exampleName0
        json_Marshal_descriptorOf json_string_def htmlSafe_def ampersand_escaped)

text \<open>
  The theorem at the second request of the example call, for the devices \<^verbatim>\<open>br0-01\<close>
  and \<^verbatim>\<open>br0-02\<close> of the bridge \<^verbatim>\<open>br0\<close>.
\<close>

theorem Allocate_device_specs_and_descriptor_witness:
  \<open>Allocate (json_Marshal json_escape) ''example.org'' ''br0'' exampleRequest exampleRuntime =
      (Inr exampleResponse, exampleRuntimeAfter)
   \<and> (1::nat) < length (ContainerRequests exampleRequest)
   \<and> DevicesIDs (ContainerRequests exampleRequest ! 1) = [''br0-01'', ''br0-02'']
   \<and> length (ContainerResponses exampleResponse) = 2
   \<and> DeviceSpecs (ContainerResponses exampleResponse ! 1) =
        [\<lparr>SpecContainerPath = ''/tmp/device-plugin-network-bridge/br0/br0-01'',
          HostPath = ''/var/run/device-plugin-network-bridge-fakedev'', Permissions = ''r''\<rparr>,
         \<lparr>SpecContainerPath = ''/tmp/device-plugin-network-bridge/br0/br0-02'',
          HostPath = ''/var/run/device-plugin-network-bridge-fakedev'', Permissions = ''r''\<rparr>]
   \<and> ran (Envs (ContainerResponses exampleResponse ! 1)) =
        {''{"name":'' @ json_string json_escape ''example.org/br0'' @ '',"interfaces":[''
           @ ''{"name":'' @ json_string json_escape ''br0-01'' @ '',"protocol":"Ethernet"},''
           @ ''{"name":'' @ json_string json_escape ''br0-02'' @ '',"protocol":"Ethernet"}]}''}
   \<and> ran (Envs (ContainerResponses exampleResponse ! 1)) =
        {''{"name":"example.org/br0","interfaces":[{"name":"br0-01","protocol":"Ethernet"},{"name":"br0-02","protocol":"Ethernet"}]}''}
   \<and> list_all htmlSafe ''br0-01''
   \<and> json_string json_escape ''br0-01'' = ''"br0-01"''\<close>
proof -
  have k: "(1::nat) < length (ContainerRequests exampleRequest)"
    by (simp add: exampleRequest_def)
  have ds: "DevicesIDs (ContainerRequests exampleRequest ! 1) = [''br0-01'', ''br0-02'']"
    by (simp add: exampleRequest_def)
  have safe: "list_all htmlSafe ''br0-01''"
    by (simp add: htmlSafe_def)
  have val: \<open>ran (Envs (ContainerResponses exampleResponse ! 1)) =
        {''{"name":"example.org/br0","interfaces":[{"name":"br0-01","protocol":"Ethernet"},{"name":"br0-02","protocol":"Ethernet"}]}''}\<close>
    by (simp add: exampleResponse_def)
  from Allocate_device_specs_and_descriptor [OF example_run_escaped k]
    example_run_escaped k ds safe val
  show ?thesis
    by (simp add: exampleRequest_def)
qed

lemma distinct_upper: "distinct ''ABCDEFGHIJKLMNOPQRSTUVWXYZ0123456789''"
  by simp

lemma upper_nth_eq:
  "a < 36 \<Longrightarrow> b < 36 \<Longrightarrow>
   (''ABCDEFGHIJKLMNOPQRSTUVWXYZ0123456789'' ! a = ''ABCDEFGHIJKLMNOPQRSTUVWXYZ0123456789'' ! b) = (a = b)"
  using distinct_upper by (intro nth_eq_iff_index_eq) simp_all

lemma suffix_eq_iff:
  "(map (\<lambda>i. ''ABCDEFGHIJKLMNOPQRSTUVWXYZ0123456789'' ! (f i mod 36)) [0..<8]
      = map (\<lambda>i. ''ABCDEFGHIJKLMNOPQRSTUVWXYZ0123456789'' ! (g i mod 36)) [0..<8])
   = (\<forall>i<8. f i mod 36 = g i mod 36)"
proof -
  have "(map (\<lambda>i. ''ABCDEFGHIJKLMNOPQRSTUVWXYZ0123456789'' ! (f i mod 36)) [0..<8]
      = map (\<lambda>i. ''ABCDEFGHIJKLMNOPQRSTUVWXYZ0123456789'' ! (g i mod 36)) [0..<8])
    = (\<forall>i\<in>set [0..<8]. ''ABCDEFGHIJKLMNOPQRSTUVWXYZ0123456789'' ! (f i mod 36)
                          = ''ABCDEFGHIJKLMNOPQRSTUVWXYZ0123456789'' ! (g i mod 36))"
    by (rule map_eq_conv)
  also have "\<dots> = (\<forall>i<8. f i mod 36 = g i mod 36)"
    by (simp only: upper_nth_eq [OF mod_less_divisor mod_less_divisor] set_upt atLeast0LessThan lessThan_iff Ball_def)
  finally show ?thesis .
qed

text \<open>
  C8, as amended. The name of the environment variable of every response is the prefix
  \<^verbatim>\<open>NETWORK_INTERFACE_RESOURCES_\<close> followed by eight characters out of \<^verbatim>\<open>A\<close> to
  \<^verbatim>\<open>Z\<close> and \<^verbatim>\<open>0\<close> to \<^verbatim>\<open>9\<close>: the ones picked by the eight draws \<^verbatim>\<open>Allocate\<close> makes
  for the request the response belongs to. Two responses of one call carry the same name
  exactly when the draws of their requests agree modulo 36 at each of the eight places;
  the code makes no check that they differ.
\<close>

theorem Allocate_env_var_names:
  assumes run: "Allocate marshal ns bridge r s = (Inr response, s')"
    and j: "j < length (ContainerResponses response)"
    and j': "j' < length (ContainerResponses response)"
  shows "\<exists>k k'.
       k = filter (\<lambda>k. \<not> isl (marshal (descriptorOf ns bridge (ContainerRequests r ! k))))
             [0..<length (ContainerRequests r)] ! j
     \<and> k' = filter (\<lambda>k. \<not> isl (marshal (descriptorOf ns bridge (ContainerRequests r ! k))))
             [0..<length (ContainerRequests r)] ! j'
     \<and> k < length (ContainerRequests r)
     \<and> dom (Envs (ContainerResponses response ! j)) =
         {''NETWORK_INTERFACE_RESOURCES_''
            @ map (\<lambda>i. ''ABCDEFGHIJKLMNOPQRSTUVWXYZ0123456789'' ! (randSrc s (randCalls s + 8 * k + i) mod 36))
                [0..<8]}
     \<and> length (map (\<lambda>i. ''ABCDEFGHIJKLMNOPQRSTUVWXYZ0123456789'' ! (randSrc s (randCalls s + 8 * k + i) mod 36))
                [0..<8]) = 8
     \<and> set (map (\<lambda>i. ''ABCDEFGHIJKLMNOPQRSTUVWXYZ0123456789'' ! (randSrc s (randCalls s + 8 * k + i) mod 36))
                [0..<8]) \<subseteq> set ''ABCDEFGHIJKLMNOPQRSTUVWXYZ0123456789''
     \<and> ((dom (Envs (ContainerResponses response ! j)) = dom (Envs (ContainerResponses response ! j')))
          = (\<forall>i<8. randSrc s (randCalls s + 8 * k + i) mod 36
                     = randSrc s (randCalls s + 8 * k' + i) mod 36))"
proof -
  let ?reqs = "ContainerRequests r"
  let ?idx = "filter (\<lambda>k. \<not> isl (marshal (descriptorOf ns bridge (?reqs ! k)))) [0..<length ?reqs]"
  let ?U = "''ABCDEFGHIJKLMNOPQRSTUVWXYZ0123456789''"
  let ?sfx = "\<lambda>k. map (\<lambda>i. ?U ! (randSrc s (randCalls s + 8 * k + i) mod 36)) [0..<8]"
  from run have resp: "ContainerResponses response =
      map (responseAt marshal ns bridge (randSrc s) (randCalls s) ?reqs) ?idx"
    unfolding Allocate_eq responsesFrom_eq by auto
  have dom_at: "dom (Envs (ContainerResponses response ! i)) = {''NETWORK_INTERFACE_RESOURCES_'' @ ?sfx (?idx ! i)}"
    if "i < length (ContainerResponses response)" for i
  proof -
    from that have "ContainerResponses response ! i =
        responseAt marshal ns bridge (randSrc s) (randCalls s) ?reqs (?idx ! i)"
      by (simp add: resp)
    then show ?thesis
      by (simp add: responseAt_def envVarNameAt_eq add.assoc del: upt_Suc)
  qed
  from j have "j < length ?idx"
    by (simp add: resp)
  then have "?idx ! j \<in> set ?idx"
    by (rule nth_mem)
  then have bound: "?idx ! j < length ?reqs"
    by simp
  have len: "length (?sfx (?idx ! j)) = 8"
    by simp
  have chars: "set (?sfx (?idx ! j)) \<subseteq> set ?U"
  proof
    fix c assume "c \<in> set (?sfx (?idx ! j))"
    then obtain i where "c = ?U ! (randSrc s (randCalls s + 8 * (?idx ! j) + i) mod 36)"
      by auto
    moreover have "randSrc s (randCalls s + 8 * (?idx ! j) + i) mod 36 < length ?U"
      by simp
    ultimately show "c \<in> set ?U"
      by (simp only: nth_mem)
  qed
  have same: "(dom (Envs (ContainerResponses response ! j)) = dom (Envs (ContainerResponses response ! j')))
          = (\<forall>i<8. randSrc s (randCalls s + 8 * (?idx ! j) + i) mod 36
                     = randSrc s (randCalls s + 8 * (?idx ! j') + i) mod 36)"
  proof -
    have single: "({a} = {b}) = (a = b)" for a b :: string
      by auto
    show ?thesis
      by (simp only: dom_at [OF j] dom_at [OF j'] single same_append_eq suffix_eq_iff)
  qed
  from dom_at [OF j] bound len chars same show ?thesis
    by blast
qed

lemma example_run:
  "Allocate (json_Marshal id) ''example.org'' ''br0'' exampleRequest exampleRuntime =
     (Inr exampleResponse, exampleRuntimeAfter)"
  by (simp add: Allocate_eq exampleRequest_def exampleRuntime_def exampleName0 exampleName8
        exampleResponse_def exampleRuntimeAfter_def
        json_Marshal_descriptorOf deviceSpecsOf_def getAssignmentPath_def fakeDevicePath_def
        newAssignments_def json_string_def htmlSafe_def upt_rec_numeral)


text \<open>
  C8, as stated, fails. With a random source that repeats with period eight, the two
  responses of one call carry the same name.
\<close>

theorem Allocate_env_var_names_collide:
  "dom (Envs (ContainerResponses
          (projr (fst (Allocate (json_Marshal id) ''example.org'' ''br0'' exampleRequest exampleRuntime))) ! 0))
     = {''NETWORK_INTERFACE_RESOURCES_ABCDEFGH''}
   \<and> dom (Envs (ContainerResponses
          (projr (fst (Allocate (json_Marshal id) ''example.org'' ''br0'' exampleRequest exampleRuntime))) ! 1))
     = {''NETWORK_INTERFACE_RESOURCES_ABCDEFGH''}"
  by (simp add: example_run exampleResponse_def)

text \<open>The theorem at the call of the counterexample below.\<close>

theorem Allocate_env_var_names_witness:
  "Allocate (json_Marshal id) ''example.org'' ''br0'' exampleRequest exampleRuntime =
     (Inr exampleResponse, exampleRuntimeAfter)
   \<and> (0::nat) < length (ContainerResponses exampleResponse)
   \<and> (1::nat) < length (ContainerResponses exampleResponse)
   \<and> dom (Envs (ContainerResponses exampleResponse ! 0)) = {''NETWORK_INTERFACE_RESOURCES_ABCDEFGH''}
   \<and> dom (Envs (ContainerResponses exampleResponse ! 0)) = dom (Envs (ContainerResponses exampleResponse ! 1))"
proof -
  have j: "(0::nat) < length (ContainerResponses exampleResponse)"
    and j': "(1::nat) < length (ContainerResponses exampleResponse)"
    by (simp_all add: exampleResponse_def)
  from Allocate_env_var_names [OF example_run j j'] example_run j j' show ?thesis
    by (simp add: exampleResponse_def)
qed


section \<open>Properties of the Attachment Engine\<close>


lemma upt11: "[0..<11] = [0, 1, 2, 3, 4, 5, 6, 7, 8, 9, 10]"
  by code_simp

lemma example_linkName:
  "randInterfaceName exampleRuntime = (''nic_abcdefghabc'', exampleRuntime\<lparr>randCalls := 11\<rparr>)"
  by (simp add: randInterfaceName_def randString_eq interfaceNameLen_def interfaceNamePrefix_def
        exampleRuntime_def letterBytes_def upt11)











text \<open>
  C2. The failing input: the bridge \<^verbatim>\<open>br0\<close> is in the host namespace 3, the process 4242
  of the container is in the namespace 4, and every call succeeds up to
  \<^verbatim>\<open>netlink.LinkSetMTU(peer, link.MTU)\<close>, which fails (step 11). The rollback
  \<^verbatim>\<open>netlink.LinkDel(link)\<close> of line 327 runs before the deferred
  \<^verbatim>\<open>netns.Set(originalNS)\<close>, so in the namespace of the container, where the host-side
  link is not: the kernel replies with an error, which the source drops. After the return
  the host-side link \<^verbatim>\<open>nic_abcdefghabc\<close> is still in the host namespace and its peer in
  the namespace of the container. The claim says the host-side link no longer exists.
\<close>

theorem attachPodToBridge_rollback_misses_host_link:
  "attachPodToBridge nsSys ''br0'' ''br0-07'' 4242
       (nsWorld [True, True, True, True, True, True, True, True, True, False]) =
     (Return (Some ''invalid argument''),
      \<lparr>kernel = \<lparr>nsLinks = [(''br0'', 3), (''nic_abcdefghabc'', 3), (''br0-07'', 4)],
                 veths = [(''nic_abcdefghabc'', ''br0-07'')], threadNs = 3,
                 procNs = [(4242, 4)], faults = []\<rparr>,
       trace = [(OpLinkByName ''br0'', GotLink br0Link),
                (OpLinkAdd exampleLink, Done),
                (OpLinkSetUp exampleLink, Done),
                (OpLinkByName ''br0-07'', GotLink peerLink),
                (OpLinkSetNsPid peerLink 4242, Done),
                (OpNsGet, GotNs 3),
                (OpNsGetFromPid 4242, GotNs 4),
                (OpNsSet 4, Done),
                (OpLinkByName ''br0-07'', GotLink peerLink),
                (OpLinkSetMTU peerLink 1500, Err ''invalid argument''),
                (OpLinkDel exampleLink, Err ''no such device''),
                (OpNsSet 3, Done)],
       rt = exampleRuntime\<lparr>randCalls := 11\<rparr>\<rparr>)"
  by (simp add: attachPodToBridge_def attach_created_def guarded_def deferred_def call_def
        example_linkName nsWorld_def nsSys_def nsLinkByName_def nsLinkAdd_def nsLinkDel_def
        nsLinkSetNsPid_def ns_on_link_def ns_get_def ns_next_def ns_here_def ns_ends_def
        exampleLink_def br0Link_def peerLink_def Let_def)

text \<open>
  A sibling path on the same kernel: bringing the host side up fails (step 4). The same
  statement \<^verbatim>\<open>netlink.LinkDel(link)\<close> runs in the host namespace and removes both ends
  of the pair.
\<close>

lemma attachPodToBridge_rollback_in_host_namespace:
  "attachPodToBridge nsSys ''br0'' ''br0-07'' 4242 (nsWorld [True, True, False]) =
     (Return (Some ''operation not permitted''),
      \<lparr>kernel = \<lparr>nsLinks = [(''br0'', 3)], veths = [], threadNs = 3,
                 procNs = [(4242, 4)], faults = []\<rparr>,
       trace = [(OpLinkByName ''br0'', GotLink br0Link),
                (OpLinkAdd exampleLink, Done),
                (OpLinkSetUp exampleLink, Err ''operation not permitted''),
                (OpLinkDel exampleLink, Done)],
       rt = exampleRuntime\<lparr>randCalls := 11\<rparr>\<rparr>)"
  by (simp add: attachPodToBridge_def attach_created_def guarded_def deferred_def call_def
        example_linkName nsWorld_def nsSys_def nsLinkByName_def nsLinkAdd_def nsLinkDel_def
        nsLinkSetNsPid_def ns_on_link_def ns_get_def ns_next_def ns_here_def ns_ends_def
        exampleLink_def br0Link_def peerLink_def Let_def)




section \<open>Properties of the Assignment Pipeline\<close>

lemma scan_Nil: "attachPods_scan sys bridge NilPtr st = Some (Return (), st)"
  by (subst attachPods_scan.simps) simp

lemma scan_step:
  "a \<noteq> NilPtr \<Longrightarrow> scan_body sys bridge a st = (Return a', st') \<Longrightarrow>
   attachPods_scan sys bridge a st = attachPods_scan sys bridge a' st'"
  by (subst attachPods_scan.simps) simp

lemma scan_panic:
  "a \<noteq> NilPtr \<Longrightarrow> scan_body sys bridge a st = (Panic e, st') \<Longrightarrow>
   attachPods_scan sys bridge a st = Some (Panic e, st')"
  by (subst attachPods_scan.simps) simp

lemma scan_body_expired:
  assumes "heap (pendingAssignments st) x = Some el"
    and "Created (Value el) + assignmentTimeout < timeSrc (rt (env st)) (timeCalls (rt (env st)))"
    and "Remove (Elem x) (pendingAssignments st) = Some l'"
    and "Next l' (Elem x) = Some a'"
  shows "scan_body sys bridge (Elem x) st =
           (Return a', st\<lparr>env := (env st)\<lparr>rt := snd (time_Now (rt (env st)))\<rparr>,
                          pendingAssignments := l'\<rparr>)"
  using assms
  by (simp add: scan_body_def time_Now_def remove_then_advance_def advance_def Let_def)

lemma pendingAB_eq:
  "pendingAB =
     \<lparr>root_next = Elem 0, root_prev = Elem 1, list_len = 2,
      heap = [0 \<mapsto> \<lparr>enext = Elem 1, eprev = Root, elist = True, Value = assignmentA\<rparr>,
              1 \<mapsto> \<lparr>enext = Root, eprev = Elem 0, elist = True, Value = assignmentB\<rparr>],
      fresh = 2\<rparr>"
  by (simp add: pendingAB_def PushBack_def insert_elem_def list_New_def lazyInit_def
        get_next_def get_prev_def set_next_def set_prev_def set_list_def Let_def fun_upd_twist)

lemma Front_pendingAB: "Front pendingAB = Elem 0"
  by (simp add: pendingAB_eq Front_def)

lemma heap_pendingAB:
  "heap pendingAB 0 = Some \<lparr>enext = Elem 1, eprev = Root, elist = True, Value = assignmentA\<rparr>"
  "heap pendingAB 1 = Some \<lparr>enext = Root, eprev = Elem 0, elist = True, Value = assignmentB\<rparr>"
  by (simp_all add: pendingAB_eq)

lemma Remove_A: "Remove (Elem 0) pendingAB = Some pendingB"
  by (simp add: pendingAB_eq pendingB_def Remove_def remove_elem_def
        get_next_def get_prev_def set_next_def set_prev_def set_list_def fun_upd_twist)

lemma Next_removed_A: "Next pendingB (Elem 0) = Some NilPtr"
  by (simp add: pendingB_def Next_def)

lemma pending_AB: "pendingAssignments st = pendingAB \<Longrightarrow> pending st = [assignmentA, assignmentB]"
  by (simp add: pending_def elements_def pendingAB_eq map_filter_simps numeral_2_eq_2)

lemma pending_B: "pendingAssignments st = pendingB \<Longrightarrow> pending st = [assignmentB]"
  by (simp add: pending_def elements_def pendingB_def map_filter_simps)

lemma scan_A_expired:
  assumes "1800000000000 < now"
  shows "attachPods_scan simSys ''br0'' (Front pendingAB) (stateAB now ms ps) =
           Some (Return (),
                 (stateAB now ms ps)\<lparr>env := (env (stateAB now ms ps))
                                              \<lparr>rt := snd (time_Now (rt (env (stateAB now ms ps))))\<rparr>,
                                      pendingAssignments := pendingB\<rparr>)"
proof -
  let ?st = "stateAB now ms ps"
  let ?st' = "?st\<lparr>env := (env ?st)\<lparr>rt := snd (time_Now (rt (env ?st)))\<rparr>,
                  pendingAssignments := pendingB\<rparr>"
  have "scan_body simSys ''br0'' (Elem 0) ?st = (Return NilPtr, ?st')"
    using assms
    by (intro scan_body_expired [where el = "\<lparr>enext = Elem 1, eprev = Root, elist = True, Value = assignmentA\<rparr>"])
       (simp_all add: stateAB_def laterWorld_def heap_pendingAB assignmentA_def
          assignmentTimeout_def Remove_A Next_removed_A)
  then have "attachPods_scan simSys ''br0'' (Elem 0) ?st = attachPods_scan simSys ''br0'' NilPtr ?st'"
    by (intro scan_step) simp_all
  then show ?thesis
    by (simp only: Front_pendingAB scan_Nil)
qed

text \<open>
  C1. The failing input: the list holds the Assignment \<open>A\<close> in front of the Assignment
  \<open>B\<close>; \<open>A\<close> has expired, \<open>B\<close> has not, and the container of \<open>B\<close> and its pid can be
  found. \<^verbatim>\<open>pendingAssignments.Remove(a)\<close> clears the fields \<^verbatim>\<open>next\<close> and \<^verbatim>\<open>list\<close> of
  the element of \<open>A\<close>, so the post statement \<^verbatim>\<open>a = a.Next()\<close> after the \<^verbatim>\<open>continue\<close>
  gives nil and the loop over the list ends: before the scan both Assignments are
  pending, after it \<open>B\<close> still is, the scan has made no call for it and has attached
  nothing. The claim says that \<open>B\<close> is visited in the same pass.
\<close>

theorem attachPods_scan_ends_at_removed_entry:
  "pending (stateAB 1800000000001 [(ContainerPath assignmentB, ''c1'')] [(''c1'', 4242)])
     = [assignmentA, assignmentB]
   \<and> map_option (\<lambda>(out, st'). (out, pending st', trace (env st'), attachments st'))
       (attachPods_scan simSys ''br0'' (Front pendingAB)
          (stateAB 1800000000001 [(ContainerPath assignmentB, ''c1'')] [(''c1'', 4242)]))
     = Some (Return (), [assignmentB], [], [])"
proof -
  let ?st = "stateAB 1800000000001 [(ContainerPath assignmentB, ''c1'')] [(''c1'', 4242)]"
  let ?st' = "?st\<lparr>env := (env ?st)\<lparr>rt := snd (time_Now (rt (env ?st)))\<rparr>,
                  pendingAssignments := pendingB\<rparr>"
  have "attachPods_scan simSys ''br0'' (Front pendingAB) ?st = Some (Return (), ?st')"
    by (rule scan_A_expired) simp
  moreover have "pending ?st' = [assignmentB]"
    by (rule pending_B) simp
  moreover have "trace (env ?st') = []" "attachments ?st' = []"
    by (simp_all add: stateAB_def laterWorld_def)
  moreover have "pending ?st = [assignmentA, assignmentB]"
    by (rule pending_AB) (simp add: stateAB_def)
  ultimately show ?thesis
    by simp
qed

text \<open>
  C5. The failing input: the list holds \<open>A\<close> in front of \<open>B\<close>, both have expired and
  neither container can be found. The scan removes \<open>A\<close> and ends there, for the reason
  given at C1 (it is the same defect): \<open>B\<close>, whose time is over as well, is still pending
  after the scan. The claim says that it is removed at the next scan. No call of the
  Attachment Engine is made.
\<close>

theorem attachPods_scan_keeps_expired_entry:
  "Created assignmentB + assignmentTimeout < 1801000000001
   \<and> pending (stateAB 1801000000001 [] []) = [assignmentA, assignmentB]
   \<and> map_option (\<lambda>(out, st'). (out, pending st', trace (env st'), attachments st'))
       (attachPods_scan simSys ''br0'' (Front pendingAB) (stateAB 1801000000001 [] []))
     = Some (Return (), [assignmentB], [], [])"
proof -
  let ?st = "stateAB 1801000000001 [] []"
  let ?st' = "?st\<lparr>env := (env ?st)\<lparr>rt := snd (time_Now (rt (env ?st)))\<rparr>,
                  pendingAssignments := pendingB\<rparr>"
  have "attachPods_scan simSys ''br0'' (Front pendingAB) ?st = Some (Return (), ?st')"
    by (rule scan_A_expired) simp
  moreover have "pending ?st' = [assignmentB]"
    by (rule pending_B) simp
  moreover have "trace (env ?st') = []" "attachments ?st' = []"
    by (simp_all add: stateAB_def laterWorld_def)
  moreover have "pending ?st = [assignmentA, assignmentB]"
    by (rule pending_AB) (simp add: stateAB_def)
  moreover have "Created assignmentB + assignmentTimeout < 1801000000001"
    by (simp add: assignmentB_def assignmentTimeout_def)
  ultimately show ?thesis
    by simp
qed

end
